theory Spec2Isabelle
  imports Complex_Main
begin

section \<open>video-bitrate-calculator: the parsing core (lib.ts)\<close>

text \<open>
  A shallow embedding of the module \<^verbatim>\<open>lib\<close> (lines 286 to 604 of
  \<^verbatim>\<open>src/src/App.tsx\<close>): \<^verbatim>\<open>parseInputString\<close> (291), \<^verbatim>\<open>parseInput\<close> (331),
  \<^verbatim>\<open>parseDuration\<close> (424), \<^verbatim>\<open>calculateBitRate\<close> (446), \<^verbatim>\<open>calculateFileSize\<close> (477),
  \<^verbatim>\<open>calculateDuration\<close> (508), \<^verbatim>\<open>parseFileSize\<close> (542) and \<^verbatim>\<open>parseBitRate\<close> (565).

  Conventions of the model.
  \<^item> A JavaScript string is a \<open>string\<close>; a \<open>char\<close> stands for a UTF-16 code unit
    below 256 (ASCII and Latin-1), which covers every character the grammars of the
    program mention.
  \<^item> \<^verbatim>\<open>undefined\<close> and \<^verbatim>\<open>null\<close> are \<open>None\<close>.
  \<^item> A thrown exception is the left injection of a sum; \<^verbatim>\<open>try/catch\<close> is a case
    distinction on it.
  \<^item> A JavaScript number is a \<open>jsnum\<close>: a finite binary64 value (kept as the
    rational it is), \<open>Infinity\<close> or \<open>NaN\<close>. No grammar of the program admits a sign,
    so negative values do not occur. Every arithmetic operation rounds its exact
    result to binary64, to nearest and ties to even, as IEEE-754 does.
  \<^item> The library functions (\<^verbatim>\<open>split\<close>, \<^verbatim>\<open>trim\<close>, \<^verbatim>\<open>parseInt\<close>, \<^verbatim>\<open>parseFloat\<close>,
    \<^verbatim>\<open>Number\<close>, \<^verbatim>\<open>toPrecision\<close>, regular expressions) are modelled on the arguments
    the program gives them; each definition says where it is narrower than JavaScript.
\<close>

subsection \<open>Characters and strings\<close>

definition is_digit :: "char \<Rightarrow> bool" where
  "is_digit c = (c \<in> set ''0123456789'')"

text \<open>
  The code units below 256 that \<^verbatim>\<open>String.prototype.trim\<close> removes (WhiteSpace and
  LineTerminator of ECMAScript): TAB, LF, VT, FF, CR, SPACE and NBSP.
\<close>

definition is_whitespace :: "char \<Rightarrow> bool" where
  "is_whitespace c = (c \<in> set [CHR 0x09, CHR 0x0A, CHR 0x0B, CHR 0x0C, CHR 0x0D, CHR 0x20, CHR 0xA0])"

definition trim :: "string \<Rightarrow> string" where
  "trim s = rev (dropWhile is_whitespace (rev (dropWhile is_whitespace s)))"

text \<open>
  \<^verbatim>\<open>s.split(sep)\<close> for a one-character separator, generalised to a predicate on the
  separating character. The result is never empty: \<^verbatim>\<open>"".split(" ")\<close> is \<^verbatim>\<open>[""]\<close>.
\<close>

fun split_by :: "(char \<Rightarrow> bool) \<Rightarrow> string \<Rightarrow> string list" where
  "split_by P [] = [[]]"
| "split_by P (c # cs) =
     (if P c then [] # split_by P cs
      else (case split_by P cs of
              [] \<Rightarrow> [[c]]
            | x # xs \<Rightarrow> (c # x) # xs))"

definition split_char :: "char \<Rightarrow> string \<Rightarrow> string list" where
  "split_char sep s = split_by (\<lambda>c. c = sep) s"

definition startsWith :: "string \<Rightarrow> string \<Rightarrow> bool" where
  "startsWith s p = (take (length p) s = p)"

text \<open>\<^verbatim>\<open>xs.join(sep)\<close>.\<close>

fun join :: "string \<Rightarrow> string list \<Rightarrow> string" where
  "join sep [] = []"
| "join sep [x] = x"
| "join sep (x # y # ys) = x @ sep @ join sep (y # ys)"

subsection \<open>Regular expressions\<close>

text \<open>
  The fragment of JavaScript regular expressions that the anchored, case-sensitive
  patterns of the program use: a literal character, \<^verbatim>\<open>\d\<close>, a character class,
  concatenation, alternation and iteration. An anchored pattern \<^verbatim>\<open>/^r$/\<close> tests
  whether the whole string is in the language of \<open>r\<close>, which the Brzozowski
  derivative decides.
\<close>

datatype rx =
    Nul
  | Eps
  | Chr char
  | Digit
  | OneOf string
  | Cat rx rx
  | Alt rx rx
  | Star rx

definition Plus :: "rx \<Rightarrow> rx" where
  "Plus r = Cat r (Star r)"

definition Opt :: "rx \<Rightarrow> rx" where
  "Opt r = Alt r Eps"

fun Lit :: "string \<Rightarrow> rx" where
  "Lit [] = Eps"
| "Lit (c # cs) = Cat (Chr c) (Lit cs)"

fun Seq :: "rx list \<Rightarrow> rx" where
  "Seq [] = Eps"
| "Seq [r] = r"
| "Seq (r # rs) = Cat r (Seq rs)"

fun AltL :: "rx list \<Rightarrow> rx" where
  "AltL [] = Nul"
| "AltL [r] = r"
| "AltL (r # rs) = Alt r (AltL rs)"

fun nullable :: "rx \<Rightarrow> bool" where
  "nullable Nul = False"
| "nullable Eps = True"
| "nullable (Chr c) = False"
| "nullable Digit = False"
| "nullable (OneOf cs) = False"
| "nullable (Cat r s) = (nullable r \<and> nullable s)"
| "nullable (Alt r s) = (nullable r \<or> nullable s)"
| "nullable (Star r) = True"

fun deriv :: "char \<Rightarrow> rx \<Rightarrow> rx" where
  "deriv c Nul = Nul"
| "deriv c Eps = Nul"
| "deriv c (Chr d) = (if c = d then Eps else Nul)"
| "deriv c Digit = (if is_digit c then Eps else Nul)"
| "deriv c (OneOf cs) = (if c \<in> set cs then Eps else Nul)"
| "deriv c (Cat r s) =
     (if nullable r then Alt (Cat (deriv c r) s) (deriv c s) else Cat (deriv c r) s)"
| "deriv c (Alt r s) = Alt (deriv c r) (deriv c s)"
| "deriv c (Star r) = Cat (deriv c r) (Star r)"

text \<open>\<^verbatim>\<open>/^r$/.test(s)\<close>.\<close>

fun rx_test :: "rx \<Rightarrow> string \<Rightarrow> bool" where
  "rx_test r [] = nullable r"
| "rx_test r (c # cs) = rx_test (deriv c r) cs"

text \<open>\<^verbatim>\<open>\d+(?:\.\d+)?\<close>, the number that opens most patterns.\<close>

definition rx_number :: rx where
  "rx_number = Cat (Plus Digit) (Opt (Cat (Chr CHR ''.'') (Plus Digit)))"

subsection \<open>parseInputString\<close>

datatype kind = FileSize | Duration | Resolution | FrameRate | BitRate

text \<open>
  The table \<^verbatim>\<open>regexes\<close>, in the order of its keys, which is the order in which
  \<^verbatim>\<open>for (const key in regexes)\<close> visits them.
\<close>

definition regexes :: "(kind \<times> rx list) list" where
  "regexes =
    [(FileSize,
        [Cat rx_number (AltL [Lit ''B'', Lit ''KB'', Lit ''MB'', Lit ''GB'', Lit ''TB''])]),
     (Duration,
        [Cat rx_number (OneOf ''hms''),
         Seq [Plus Digit, Chr CHR '':'', Plus Digit, Chr CHR '':'', Plus Digit],
         Seq [Plus Digit, Chr CHR '':'', Plus Digit],
         Seq [Plus Digit, Chr CHR ''h'', Opt (Cat (Plus Digit) (Chr CHR ''m'')),
              Opt (Cat (Plus Digit) (Chr CHR ''s''))],
         Seq [Plus Digit, Chr CHR ''m'', Opt (Cat (Plus Digit) (Chr CHR ''s''))]]),
     (Resolution,
        [Seq [Plus Digit, Chr CHR ''x'', Plus Digit]]),
     (FrameRate,
        [Cat rx_number (Lit ''fps'')]),
     (BitRate,
        [Cat rx_number
           (AltL [Lit ''bps'', Lit ''kbps'', Lit ''Mbps'', Lit ''Gbps'', Lit ''k'', Lit ''M'',
                  Lit ''G''])])]"

text \<open>
  The inner loop of \<^verbatim>\<open>parseInputString\<close>: the first key one of whose patterns
  accepts the token, or \<open>None\<close> when \<^verbatim>\<open>matched\<close> stays false.
\<close>

fun match_key :: "(kind \<times> rx list) list \<Rightarrow> string \<Rightarrow> kind option" where
  "match_key [] token = None"
| "match_key ((key, rs) # rest) token =
     (if list_ex (\<lambda>regex. rx_test regex token) rs then Some key
      else match_key rest token)"

text \<open>
  \<^verbatim>\<open>input.split(" ").map((s) => s.trim()).filter((s) => s.length > 0 && !s.startsWith("/"))\<close>
\<close>

definition tokenize :: "string \<Rightarrow> string list" where
  "tokenize inp =
     filter (\<lambda>s. length s > 0 \<and> \<not> startsWith s ''/'')
       (map trim (split_char CHR '' '' inp))"

record parse_result =
  parsed :: "kind \<Rightarrow> string option"
  unknownTokens :: "string list"

text \<open>The body of \<^verbatim>\<open>tokens.forEach\<close>: one token updates \<^verbatim>\<open>parsed\<close> or \<^verbatim>\<open>unknownTokens\<close>.\<close>

definition classify_token :: "parse_result \<Rightarrow> string \<Rightarrow> parse_result" where
  "classify_token st token =
     (case match_key regexes token of
        Some key \<Rightarrow> st\<lparr>parsed := (parsed st)(key \<mapsto> token)\<rparr>
      | None \<Rightarrow> st\<lparr>unknownTokens := unknownTokens st @ [token]\<rparr>)"

definition parseInputString :: "string \<Rightarrow> parse_result" where
  "parseInputString inp =
     foldl classify_token \<lparr>parsed = Map.empty, unknownTokens = []\<rparr> (tokenize inp)"

subsection \<open>Numbers\<close>

text \<open>
  A JavaScript number is an IEEE-754 binary64 value. \<open>Fin x\<close> is the finite value
  \<open>x\<close>, a rational that binary64 represents; no grammar of the program admits a sign,
  so the values are not negative and zero has no sign. An arithmetic operation takes
  the exact result and rounds it to the nearest binary64 value, ties to the even
  significand (\<open>round64\<close>); a result that rounds to \<open>2^1024\<close> or more is \<open>Infinity\<close>.
\<close>

datatype jsnum = Fin rat | Infinity | NaN

text \<open>The number of binary digits of a positive integer.\<close>

function bitlen :: "int \<Rightarrow> nat" where
  "bitlen n = (if n < 2 then 1 else Suc (bitlen (n div 2)))"
  by auto
termination
  by (relation "measure nat") auto

text \<open>For a positive \<open>x\<close>, the \<open>e\<close> with \<open>2^e \<le> x < 2^(e+1)\<close>.\<close>

definition exponent2 :: "rat \<Rightarrow> int" where
  "exponent2 x =
     (if x \<ge> 1 then int (bitlen \<lfloor>x\<rfloor>) - 1
      else - int (bitlen (\<lceil>1 / x\<rceil> - 1)))"

definition pow2 :: "int \<Rightarrow> rat" where
  "pow2 k = (if k \<ge> 0 then 2 ^ nat k else 1 / 2 ^ nat (- k))"

definition round_half_even :: "rat \<Rightarrow> int" where
  "round_half_even q =
     (let f = \<lfloor>q\<rfloor>; r = q - of_int f in
      if r < 1 / 2 then f
      else if r > 1 / 2 then f + 1
      else if even f then f else f + 1)"

text \<open>
  The binary64 value nearest to a rational that is not negative. The significand has
  53 bits, so the spacing at exponent \<open>e\<close> is \<open>2^(e-52)\<close>; below \<open>2^(-1022)\<close> the spacing
  stays \<open>2^(-1074)\<close> (subnormal values).
\<close>

definition round64 :: "rat \<Rightarrow> jsnum" where
  "round64 x =
     (if x = 0 then Fin 0
      else if exponent2 x > 1023 then Infinity
      else
        (let e = max (exponent2 x) (- 1022);
             ulp = pow2 (e - 52);
             n = round_half_even (x / ulp)
         in if e = 1023 \<and> n \<ge> 2 ^ 53 then Infinity else Fin (of_int n * ulp)))"

fun jmul :: "jsnum \<Rightarrow> jsnum \<Rightarrow> jsnum" where
  "jmul (Fin a) (Fin b) = round64 (a * b)"
| "jmul (Fin a) Infinity = (if a = 0 then NaN else Infinity)"
| "jmul Infinity (Fin b) = (if b = 0 then NaN else Infinity)"
| "jmul Infinity Infinity = Infinity"
| "jmul NaN y = NaN"
| "jmul x NaN = NaN"

fun jdiv :: "jsnum \<Rightarrow> jsnum \<Rightarrow> jsnum" where
  "jdiv (Fin a) (Fin b) = (if b = 0 then (if a = 0 then NaN else Infinity) else round64 (a / b))"
| "jdiv (Fin a) Infinity = Fin 0"
| "jdiv Infinity (Fin b) = Infinity"
| "jdiv Infinity Infinity = NaN"
| "jdiv NaN y = NaN"
| "jdiv x NaN = NaN"

fun jadd :: "jsnum \<Rightarrow> jsnum \<Rightarrow> jsnum" where
  "jadd (Fin a) (Fin b) = round64 (a + b)"
| "jadd (Fin a) Infinity = Infinity"
| "jadd Infinity (Fin b) = Infinity"
| "jadd Infinity Infinity = Infinity"
| "jadd NaN y = NaN"
| "jadd x NaN = NaN"

text \<open>
  \<^verbatim>\<open>a % b\<close> and \<^verbatim>\<open>Math.floor(a)\<close>, for values that are not negative. Both are
  exact in binary64: the remainder and the floor of binary64 values are binary64 values.
\<close>

fun jmod :: "jsnum \<Rightarrow> jsnum \<Rightarrow> jsnum" where
  "jmod (Fin a) (Fin b) = (if b = 0 then NaN else Fin (a - b * of_int \<lfloor>a / b\<rfloor>))"
| "jmod (Fin a) Infinity = Fin a"
| "jmod Infinity y = NaN"
| "jmod NaN y = NaN"
| "jmod x NaN = NaN"

fun jfloor :: "jsnum \<Rightarrow> jsnum" where
  "jfloor (Fin a) = Fin (of_int \<lfloor>a\<rfloor>)"
| "jfloor Infinity = Infinity"
| "jfloor NaN = NaN"

text \<open>\<^verbatim>\<open>a >= b\<close>, \<^verbatim>\<open>a < b\<close> and \<^verbatim>\<open>a > b\<close>: every comparison with \<open>NaN\<close> is false.\<close>

fun jge :: "jsnum \<Rightarrow> jsnum \<Rightarrow> bool" where
  "jge (Fin a) (Fin b) = (a \<ge> b)"
| "jge (Fin a) Infinity = False"
| "jge Infinity (Fin b) = True"
| "jge Infinity Infinity = True"
| "jge NaN y = False"
| "jge x NaN = False"

fun jlt :: "jsnum \<Rightarrow> jsnum \<Rightarrow> bool" where
  "jlt (Fin a) (Fin b) = (a < b)"
| "jlt (Fin a) Infinity = True"
| "jlt Infinity y = False"
| "jlt NaN y = False"
| "jlt x NaN = False"

definition jgt :: "jsnum \<Rightarrow> jsnum \<Rightarrow> bool" where
  "jgt a b = jlt b a"

text \<open>Truthiness of a number: \<open>0\<close> and \<open>NaN\<close> are falsy.\<close>

fun num_truthy :: "jsnum \<Rightarrow> bool" where
  "num_truthy (Fin a) = (a \<noteq> 0)"
| "num_truthy Infinity = True"
| "num_truthy NaN = False"

text \<open>
  Truthiness of a value that is a number, \<^verbatim>\<open>null\<close> or \<^verbatim>\<open>undefined\<close>, and of one
  that is a string or \<^verbatim>\<open>undefined\<close>: the empty string is falsy.
\<close>

fun truthy :: "jsnum option \<Rightarrow> bool" where
  "truthy None = False"
| "truthy (Some n) = num_truthy n"

fun str_truthy :: "string option \<Rightarrow> bool" where
  "str_truthy None = False"
| "str_truthy (Some s) = (s \<noteq> [])"

subsection \<open>Numbers and strings\<close>

definition digit_val :: "char \<Rightarrow> int" where
  "digit_val c = of_char c - of_char CHR ''0''"

text \<open>The value of a string of decimal digits.\<close>

definition digits_val :: "string \<Rightarrow> int" where
  "digits_val ds = foldl (\<lambda>n c. 10 * n + digit_val c) 0 ds"

definition digit_char :: "int \<Rightarrow> char" where
  "digit_char d = char_of (of_char CHR ''0'' + d)"

text \<open>The decimal digits of an integer that is not negative.\<close>

function dec_str :: "int \<Rightarrow> string" where
  "dec_str n = (if n < 10 then [digit_char n] else dec_str (n div 10) @ [digit_char (n mod 10)])"
  by auto
termination
  by (relation "measure nat") auto

text \<open>
  The value of a decimal literal \<^verbatim>\<open>ddd\<close> or \<^verbatim>\<open>ddd.ddd\<close>, given as its integer and
  fraction digits, rounded to binary64.
\<close>

definition decimal_value :: "string \<Rightarrow> string \<Rightarrow> jsnum" where
  "decimal_value ip fp = round64 (of_int (digits_val ip) + of_int (digits_val fp) / 10 ^ length fp)"

text \<open>
  \<^verbatim>\<open>parseFloat(s)\<close>: the value of \<^verbatim>\<open>ddd\<close> or \<^verbatim>\<open>ddd.ddd\<close> at the start of the
  string, the rest ignored, and \<open>NaN\<close> when the string does not start with a digit. This
  is \<^verbatim>\<open>parseFloat\<close> on the strings the program gives it, which are the group
  \<^verbatim>\<open>(\d+(\.\d+)?)\<close> of a match (signs, exponents, leading blanks and a leading
  point do not occur in them).
\<close>

definition parseFloat :: "string \<Rightarrow> jsnum" where
  "parseFloat s =
     (let ip = takeWhile is_digit s; r = dropWhile is_digit s in
      if ip = [] then NaN
      else (case r of
              [] \<Rightarrow> decimal_value ip []
            | c # r' \<Rightarrow>
                if c = CHR ''.'' then decimal_value ip (takeWhile is_digit r')
                else decimal_value ip []))"

text \<open>
  \<^verbatim>\<open>parseInt(s, 10)\<close>: the leading digits, \<open>NaN\<close> when there are none (signs and
  leading blanks do not occur in the strings the program gives it).
\<close>

definition parseInt :: "string \<Rightarrow> jsnum" where
  "parseInt s =
     (let ip = takeWhile is_digit s in
      if ip = [] then NaN else decimal_value ip [])"

text \<open>
  \<^verbatim>\<open>Number(s)\<close> on the pieces of a token split at \<^verbatim>\<open>:\<close> or \<^verbatim>\<open>x\<close>: blanks around
  the literal are dropped, the empty string is \<open>0\<close>, an unsigned decimal literal has its
  value (\<^verbatim>\<open>5\<close>, \<^verbatim>\<open>5.\<close>, \<^verbatim>\<open>.5\<close>, \<^verbatim>\<open>5.5\<close>), anything else is \<open>NaN\<close>. (JavaScript also
  converts signed literals, exponents, \<^verbatim>\<open>0x\<close>, \<^verbatim>\<open>0o\<close>, \<^verbatim>\<open>0b\<close> literals and
  \<^verbatim>\<open>Infinity\<close>; no token that \<open>regexes\<close> accepts has such a piece.)
\<close>

definition Number_str :: "string \<Rightarrow> jsnum" where
  "Number_str s =
     (let t = trim s; ip = takeWhile is_digit t; r = dropWhile is_digit t in
      if t = [] then Fin 0
      else (case r of
              [] \<Rightarrow> decimal_value ip []
            | c # fp \<Rightarrow>
                if c = CHR ''.'' \<and> list_all is_digit fp \<and> (ip \<noteq> [] \<or> fp \<noteq> [])
                then decimal_value ip fp
                else NaN))"

text \<open>
  \<^verbatim>\<open>x.toPrecision(3)\<close>. For a positive \<open>x\<close>, \<open>exponent10 x\<close> is the \<open>e\<close> with
  \<open>10^e \<le> x < 10^(e+1)\<close>; the three digits are \<open>x / 10^(e-2)\<close> rounded to the nearest
  integer, the larger one at a tie, and a carry to \<open>1000\<close> moves to the next exponent.
  The notation is exponential when \<open>e < -6\<close> or \<open>e \<ge> 3\<close>.
\<close>

definition exponent10 :: "rat \<Rightarrow> int" where
  "exponent10 x =
     (if x \<ge> 1 then int (length (dec_str \<lfloor>x\<rfloor>)) - 1
      else - int (length (dec_str (\<lceil>1 / x\<rceil> - 1))))"

definition scale10 :: "rat \<Rightarrow> int \<Rightarrow> rat" where
  "scale10 x k = (if k \<ge> 0 then x * 10 ^ nat k else x / 10 ^ nat (- k))"

definition toPrecision3 :: "jsnum \<Rightarrow> string" where
  "toPrecision3 v =
     (case v of
        NaN \<Rightarrow> ''NaN''
      | Infinity \<Rightarrow> ''Infinity''
      | Fin x \<Rightarrow>
          if x = 0 then ''0.00''
          else
            (let e0 = exponent10 x;
                 n0 = \<lfloor>scale10 x (2 - e0) + 1 / 2\<rfloor>;
                 e = (if n0 = 1000 then e0 + 1 else e0);
                 n = (if n0 = 1000 then 100 else n0);
                 ds = dec_str n
             in if e < -6 \<or> e \<ge> 3 then
                  take 1 ds @ ''.'' @ drop 1 ds @ ''e'' @ (if e < 0 then ''-'' else ''+'')
                    @ dec_str \<bar>e\<bar>
                else if e \<ge> 0 then
                  (if e = 2 then ds else take (nat e + 1) ds @ ''.'' @ drop (nat e + 1) ds)
                else ''0.'' @ replicate (nat (- e - 1)) CHR ''0'' @ ds))"

text \<open>
  \<^verbatim>\<open>`${x}`\<close>, the conversion of a number to a string (\<^verbatim>\<open>Number::toString\<close>): the
  digits are those of the integer \<open>s\<close> with the fewest digits \<open>k\<close> such that
  \<open>s * 10^(n-k)\<close> rounds to \<open>x\<close>, where \<open>10^(n-1) \<le> x < 10^n\<close>. \<open>shortest_digits\<close> tries
  \<open>k = 1, 2, \<dots>\<close> with the two integers next to \<open>x / 10^(n-k)\<close>, and takes the nearer one
  when both round to \<open>x\<close>; 17 digits always suffice.
\<close>

fun shortest_digits :: "nat \<Rightarrow> nat \<Rightarrow> rat \<Rightarrow> int \<Rightarrow> int \<times> nat" where
  "shortest_digits 0 k x n = (\<lfloor>scale10 x (int k - n) + 1 / 2\<rfloor>, k)"
| "shortest_digits (Suc fuel) k x n =
     (let t = scale10 x (int k - n);
          lo = \<lfloor>t\<rfloor>;
          hi = lo + 1;
          lo_ok = (round64 (scale10 (of_int lo) (n - int k)) = Fin x);
          hi_ok = (round64 (scale10 (of_int hi) (n - int k)) = Fin x)
      in if lo_ok \<and> hi_ok then (if t - of_int lo \<le> of_int hi - t then lo else hi, k)
         else if lo_ok then (lo, k)
         else if hi_ok then (hi, k)
         else shortest_digits fuel (Suc k) x n)"

definition num_toString :: "jsnum \<Rightarrow> string" where
  "num_toString v =
     (case v of
        NaN \<Rightarrow> ''NaN''
      | Infinity \<Rightarrow> ''Infinity''
      | Fin x \<Rightarrow>
          if x = 0 then ''0''
          else
            (let n0 = exponent10 x + 1;
                 (s, k0) = shortest_digits 17 1 x n0;
                 ds0 = dec_str s;
                 n = n0 + (int (length ds0) - int k0);
                 ds = rev (dropWhile (\<lambda>c. c = CHR ''0'') (rev ds0));
                 k = int (length ds)
             in if - 5 \<le> n \<and> n \<le> 21 then
                  (if k \<le> n then ds @ replicate (nat (n - k)) CHR ''0''
                   else if 0 < n then take (nat n) ds @ ''.'' @ drop (nat n) ds
                   else ''0.'' @ replicate (nat (- n)) CHR ''0'' @ ds)
                else
                  (if k = 1 then ds else take 1 ds @ ''.'' @ drop 1 ds)
                    @ ''e'' @ (if n - 1 < 0 then ''-'' else ''+'') @ dec_str \<bar>n - 1\<bar>))"

subsection \<open>Exceptions\<close>

text \<open>
  What the program can throw: \<^verbatim>\<open>new Error(message)\<close>, and the \<^verbatim>\<open>TypeError\<close> of a
  method call on \<^verbatim>\<open>undefined\<close>. \<open>exn_toString\<close> is \<^verbatim>\<open>Error.prototype.toString\<close>:
  the name of the exception, and after \<^verbatim>\<open>": "\<close> its message unless that is empty.
\<close>

datatype exn = Error string | TypeError string

fun exn_toString :: "exn \<Rightarrow> string" where
  "exn_toString (Error msg) = (if msg = [] then ''Error'' else ''Error: '' @ msg)"
| "exn_toString (TypeError msg) = (if msg = [] then ''TypeError'' else ''TypeError: '' @ msg)"

text \<open>Sequencing of a computation that may throw.\<close>

definition bind_exn :: "exn + 'a \<Rightarrow> ('a \<Rightarrow> exn + 'b) \<Rightarrow> exn + 'b" where
  "bind_exn m f = (case m of Inl e \<Rightarrow> Inl e | Inr v \<Rightarrow> f v)"

subsection \<open>parseDuration\<close>

definition ascii_lower :: "char \<Rightarrow> char" where
  "ascii_lower c =
     (case map_of (zip ''ABCDEFGHIJKLMNOPQRSTUVWXYZ'' ''abcdefghijklmnopqrstuvwxyz'') c of
        Some l \<Rightarrow> l
      | None \<Rightarrow> c)"

definition ascii_upper :: "char \<Rightarrow> char" where
  "ascii_upper c =
     (case map_of (zip ''abcdefghijklmnopqrstuvwxyz'' ''ABCDEFGHIJKLMNOPQRSTUVWXYZ'') c of
        Some u \<Rightarrow> u
      | None \<Rightarrow> c)"

text \<open>
  One optional group \<^verbatim>\<open>(\d+u)?\<close> of \<^verbatim>\<open>hmsRegex\<close>, letters compared without case: the
  group and the rest of the string when the string starts with digits followed by the
  letter, no group and the whole string otherwise. (The digits are the whole run of
  digits: a shorter run would have to be followed by a digit, not by the letter.)
\<close>

definition hms_group :: "char \<Rightarrow> string \<Rightarrow> string option \<times> string" where
  "hms_group u s =
     (let ds = takeWhile is_digit s in
      case dropWhile is_digit s of
        [] \<Rightarrow> (None, s)
      | c # rest \<Rightarrow> if ds \<noteq> [] \<and> ascii_lower c = u then (Some (ds @ [c]), rest) else (None, s))"

text \<open>
  \<^verbatim>\<open>duration.match(/(\d+h)?(\d+m)?(\d+s)?/i)\<close>. The pattern is not anchored and
  each of its groups is optional, so it matches at index 0 of every string, if only the
  empty string there, and the result is never \<^verbatim>\<open>null\<close>. The result is the whole match
  and the three groups.
\<close>

definition hmsRegex_match ::
  "string \<Rightarrow> (string \<times> string option \<times> string option \<times> string option) option" where
  "hmsRegex_match s =
     (let (h, s1) = hms_group CHR ''h'' s;
          (m, s2) = hms_group CHR ''m'' s1;
          (sec, s3) = hms_group CHR ''s'' s2
      in Some (take (length s - length s3) s, h, m, sec))"

text \<open>\<^verbatim>\<open>parseInt(x || "0", 10)\<close> for a group \<open>x\<close> of the match.\<close>

definition group_int :: "string option \<Rightarrow> jsnum" where
  "group_int x = parseInt (if str_truthy x then (case x of Some g \<Rightarrow> g | None \<Rightarrow> ''0'') else ''0'')"

text \<open>\<^verbatim>\<open>(n || 0)\<close>.\<close>

definition or_zero :: "jsnum \<Rightarrow> jsnum" where
  "or_zero n = (if num_truthy n then n else Fin 0)"

definition parseDuration :: "string \<Rightarrow> jsnum option" where
  "parseDuration duration =
     (if CHR '':'' \<in> set duration then
        (case map Number_str (split_char CHR '':'' duration) of
           [p0, p1] \<Rightarrow> Some (jadd (jmul p0 (Fin 60)) p1)
         | [p0, p1, p2] \<Rightarrow> Some (jadd (jadd (jmul p0 (Fin 3600)) (jmul p1 (Fin 60))) p2)
         | _ \<Rightarrow> None)
      else
        (case hmsRegex_match duration of
           None \<Rightarrow> None
         | Some (whole, h, m, s) \<Rightarrow>
             (let hours = group_int h; minutes = group_int m; seconds = group_int s in
              Some (jadd (jadd (jmul (or_zero hours) (Fin 3600)) (jmul (or_zero minutes) (Fin 60)))
                      (or_zero seconds)))))"

subsection \<open>parseFileSize and parseBitRate\<close>

text \<open>
  \<^verbatim>\<open>fileSize.match(/(\d+(\.\d+)?)([TGMK]?B?)/i)\<close>: the pattern is not anchored, so the
  match starts at the first digit of the string and is \<^verbatim>\<open>null\<close> when there is none.
  The result is group 1 (the number) and group 3 (the unit, possibly empty); whatever
  follows the unit is ignored.
\<close>

definition sizeRegex_match :: "string \<Rightarrow> (string \<times> string) option" where
  "sizeRegex_match s =
     (let s1 = dropWhile (\<lambda>c. \<not> is_digit c) s in
      if s1 = [] then None
      else
        (let ip = takeWhile is_digit s1;
             r1 = dropWhile is_digit s1;
             (fp, r2) =
               (case r1 of
                  [] \<Rightarrow> ([], r1)
                | c # r \<Rightarrow>
                    if c = CHR ''.'' \<and> takeWhile is_digit r \<noteq> []
                    then (c # takeWhile is_digit r, dropWhile is_digit r)
                    else ([], r1));
             (u1, r3) =
               (case r2 of
                  [] \<Rightarrow> ([], r2)
                | c # r \<Rightarrow> if ascii_upper c \<in> set ''TGMK'' then ([c], r) else ([], r2));
             u2 =
               (case r3 of
                  [] \<Rightarrow> []
                | c # r \<Rightarrow> if ascii_upper c = CHR ''B'' then [c] else [])
         in Some (ip @ fp, u1 @ u2)))"

text \<open>
  The argument is \<open>None\<close> when the caller passes \<^verbatim>\<open>undefined\<close>; the method call
  \<^verbatim>\<open>fileSize.match\<close> then throws a \<^verbatim>\<open>TypeError\<close> (the message is the engine's; V8's
  is given).
\<close>

definition parseFileSize :: "string option \<Rightarrow> exn + jsnum" where
  "parseFileSize fileSize =
     (case fileSize of
        None \<Rightarrow> Inl (TypeError ''Cannot read properties of undefined (reading 'match')'')
      | Some fs \<Rightarrow>
          (case sizeRegex_match fs of
             None \<Rightarrow> Inl (Error ''Invalid file size format.'')
           | Some (size_str, unit) \<Rightarrow>
               (let sizeInBytes = parseFloat size_str;
                    unitLower = map ascii_upper unit;
                    multiplier =
                      (if unitLower = ''TB'' then 10 ^ 12
                       else if unitLower = ''GB'' then 10 ^ 9
                       else if unitLower = ''MB'' then 10 ^ 6
                       else if unitLower = ''KB'' then 10 ^ 3
                       else 1)
                in Inr (jmul sizeInBytes (Fin multiplier)))))"

text \<open>\<^verbatim>\<open>/^(\d+(?:\.\d+)?)(bps|kbps|Mbps|Gbps|k|M|G)$/\<close>\<close>

definition rateRegex :: rx where
  "rateRegex =
     Cat rx_number
       (AltL [Lit ''bps'', Lit ''kbps'', Lit ''Mbps'', Lit ''Gbps'', Lit ''k'', Lit ''M'', Lit ''G''])"

text \<open>
  When \<open>rateRegex\<close> accepts the string, its group 1 is the longest prefix of digits
  and points and its group 2 is the rest, since every unit starts with a letter.
\<close>

definition parseBitRate :: "string option \<Rightarrow> exn + jsnum" where
  "parseBitRate bitRate =
     (case bitRate of
        None \<Rightarrow> Inl (TypeError ''Cannot read properties of undefined (reading 'match')'')
      | Some br \<Rightarrow>
          if \<not> rx_test rateRegex br then Inl (Error ''Invalid bit rate format.'')
          else
            (let v = parseFloat (takeWhile (\<lambda>c. is_digit c \<or> c = CHR ''.'') br);
                 unit = map ascii_lower (dropWhile (\<lambda>c. is_digit c \<or> c = CHR ''.'') br)
             in if unit = ''k'' \<or> unit = ''kb'' \<or> unit = ''kbps'' then Inr (jmul v (Fin (10 ^ 3)))
                else if unit = ''m'' \<or> unit = ''mb'' \<or> unit = ''mbps'' then Inr (jmul v (Fin (10 ^ 6)))
                else if unit = ''g'' \<or> unit = ''gb'' \<or> unit = ''gbps'' then Inr (jmul v (Fin (10 ^ 9)))
                else Inl (Error ''Unsupported bit rate unit.'')))"

subsection \<open>The calculators\<close>

text \<open>\<^verbatim>\<open>s.replace(pat, rep)\<close> for a string pattern: the first occurrence is replaced.\<close>

fun replace_first :: "string \<Rightarrow> string \<Rightarrow> string \<Rightarrow> string" where
  "replace_first pat rep [] = (if pat = [] then rep else [])"
| "replace_first pat rep (c # cs) =
     (if startsWith (c # cs) pat then rep @ drop (length pat) (c # cs)
      else c # replace_first pat rep cs)"

text \<open>
  The four lines that each calculator runs when \<^verbatim>\<open>resolution && frameRate\<close> holds:
  \<^verbatim>\<open>const [width, height] = resolution.split("x").map(Number);\<close>
  \<^verbatim>\<open>const fps = parseInt(frameRate.replace("fps", ""), 10);\<close>
  \<^verbatim>\<open>const pixelsPerSecond = width * height * fps;\<close>
  A \<^verbatim>\<open>height\<close> that the split does not provide is \<^verbatim>\<open>undefined\<close>, and the product is
  \<open>NaN\<close>.
\<close>

definition pixelsPerSecond :: "string \<Rightarrow> string \<Rightarrow> jsnum" where
  "pixelsPerSecond resolution frameRate =
     (let fps = parseInt (replace_first ''fps'' [] frameRate) in
      case map Number_str (split_char CHR ''x'' resolution) of
        width # height # rest \<Rightarrow> jmul (jmul width height) fps
      | _ \<Rightarrow> NaN)"

definition calculateBitRate ::
  "string option \<Rightarrow> jsnum \<Rightarrow> string option \<Rightarrow> string option \<Rightarrow> exn + string" where
  "calculateBitRate fileSize duration resolution frameRate =
     bind_exn (parseFileSize fileSize) (\<lambda>bytes.
       let sizeInBits = jmul bytes (Fin 8);
           bitRate = jdiv sizeInBits duration;
           bitsPerPixel =
             (case (resolution, frameRate) of
                (Some res, Some fr) \<Rightarrow>
                  if res \<noteq> [] \<and> fr \<noteq> [] then jdiv bitRate (pixelsPerSecond res fr) else Fin 0
              | _ \<Rightarrow> Fin 0);
           result =
             (if jge bitRate (Fin (10 ^ 6)) then toPrecision3 (jdiv bitRate (Fin (10 ^ 6))) @ '' Mbps''
              else if jge bitRate (Fin (10 ^ 3)) then toPrecision3 (jdiv bitRate (Fin (10 ^ 3))) @ '' kbps''
              else toPrecision3 bitRate @ '' bps'')
       in Inr (result @
                 (if jgt bitsPerPixel (Fin 0) then '' ('' @ toPrecision3 bitsPerPixel @ '' bits/pixel)''
                  else [])))"

definition calculateFileSize ::
  "string option \<Rightarrow> jsnum \<Rightarrow> string option \<Rightarrow> string option \<Rightarrow> exn + string" where
  "calculateFileSize bitRate duration resolution frameRate =
     bind_exn (parseBitRate bitRate) (\<lambda>rateInBits.
       let fileSize =
             (case (resolution, frameRate) of
                (Some res, Some fr) \<Rightarrow>
                  if res \<noteq> [] \<and> fr \<noteq> [] then
                    (let pps = pixelsPerSecond res fr;
                         bitsPerPixel = jdiv rateInBits pps
                     in jmul (jmul bitsPerPixel pps) duration)
                  else jmul rateInBits duration
              | _ \<Rightarrow> jmul rateInBits duration)
       in Inr (if jlt fileSize (Fin (10 ^ 3)) then num_toString fileSize @ '' bytes''
               else if jlt fileSize (Fin (10 ^ 6)) then toPrecision3 (jdiv fileSize (Fin (10 ^ 3))) @ '' kB''
               else if jlt fileSize (Fin (10 ^ 9)) then toPrecision3 (jdiv fileSize (Fin (10 ^ 6))) @ '' MB''
               else if jlt fileSize (Fin (10 ^ 12)) then toPrecision3 (jdiv fileSize (Fin (10 ^ 9))) @ '' GB''
               else toPrecision3 (jdiv fileSize (Fin (10 ^ 12))) @ '' TB''))"

text \<open>
  In \<^verbatim>\<open>calculateDuration\<close> the block under \<^verbatim>\<open>resolution && frameRate\<close> computes two
  constants that nothing reads and cannot throw; the model leaves it out.
\<close>

definition calculateDuration ::
  "string option \<Rightarrow> string option \<Rightarrow> string option \<Rightarrow> string option \<Rightarrow> exn + string" where
  "calculateDuration fileSize bitRate resolution frameRate =
     bind_exn (parseFileSize fileSize) (\<lambda>bytes.
     bind_exn (parseBitRate bitRate) (\<lambda>rateInBits.
       let sizeInBits = jmul bytes (Fin 8);
           duration = jdiv sizeInBits rateInBits
       in Inr (if jge duration (Fin 3600) then
                 (let hours = jfloor (jdiv duration (Fin 3600));
                      minutes = jfloor (jdiv (jmod duration (Fin 3600)) (Fin 60));
                      seconds = jfloor (jmod duration (Fin 60))
                  in ''(hh:mm:ss): '' @ num_toString hours @ '':'' @ num_toString minutes @ '':''
                       @ num_toString seconds)
               else if jge duration (Fin 60) then
                 (let minutes = jfloor (jdiv duration (Fin 60));
                      seconds = jfloor (jmod duration (Fin 60))
                  in ''(mm:ss): '' @ num_toString minutes @ '':'' @ num_toString seconds)
               else ''(s): '' @ num_toString duration)))"

subsection \<open>parseInput\<close>

record CalculationResult =
  input :: string
  "output" :: string

definition requiredKeys :: "kind list" where
  "requiredKeys = [BitRate, Duration, FileSize]"

text \<open>
  The statements under \<^verbatim>\<open>try\<close>: \<open>Inl\<close> is the exception thrown, \<open>Inr\<close> the
  \<^verbatim>\<open>output\<close> of the object returned.
\<close>

definition parseInput_try :: "string \<Rightarrow> exn + string" where
  "parseInput_try inp =
     (let r = parseInputString inp in
      if length (unknownTokens r) > 0 then
        Inl (Error (''Unknown tokens: '' @ join '', '' (unknownTokens r)))
      else
        (let missingKeys = filter (\<lambda>key. parsed r key = None) requiredKeys in
         if length missingKeys \<noteq> 1 then
           Inl (Error ''Invalid input. Provide at least two parameters to calculate the missing value.'')
         else
           (let bitRate = parsed r BitRate;
                duration = parsed r Duration;
                fileSize = parsed r FileSize;
                resolution = parsed r Resolution;
                frameRate = parsed r FrameRate
            in bind_exn
                 (case duration of
                    None \<Rightarrow> Inr None
                  | Some d \<Rightarrow>
                      (let durationInSeconds = parseDuration d in
                       if \<not> truthy durationInSeconds
                       then Inl (Error (''Invalid duration format '' @ d))
                       else Inr durationInSeconds))
                 (\<lambda>durationInSeconds.
                    case durationInSeconds of
                      None \<Rightarrow>
                        bind_exn (calculateDuration fileSize bitRate resolution frameRate)
                          (\<lambda>calculatedDuration. Inr (''Duration '' @ calculatedDuration))
                    | Some secs \<Rightarrow>
                        if \<not> num_truthy secs then
                          bind_exn (calculateDuration fileSize bitRate resolution frameRate)
                            (\<lambda>calculatedDuration. Inr (''Duration '' @ calculatedDuration))
                        else if \<not> str_truthy bitRate then
                          bind_exn (calculateBitRate fileSize secs resolution frameRate)
                            (\<lambda>calculatedBitRate. Inr (''Bit rate: '' @ calculatedBitRate))
                        else if \<not> str_truthy fileSize then
                          bind_exn (calculateFileSize bitRate secs None None)
                            (\<lambda>calculatedFileSize. Inr (''File size: '' @ calculatedFileSize))
                        else Inl (Error ''All values were provided. Nothing to calculate.'')))))"

text \<open>
  The \<^verbatim>\<open>catch\<close>: every exception of the model is an \<^verbatim>\<open>instanceof Error\<close>, so the
  branch that answers \<^verbatim>\<open>"An unknown error occurred."\<close> is never taken.
\<close>

definition parseInput :: "string \<Rightarrow> CalculationResult" where
  "parseInput inp =
     (case parseInput_try inp of
        Inr out \<Rightarrow> \<lparr>input = inp, output = out\<rparr>
      | Inl error \<Rightarrow> \<lparr>input = inp, output = exn_toString error\<rparr>)"

text \<open>
  The messages of the failure paths of \<^verbatim>\<open>parseInput\<close>: unknown tokens, a wrong
  number of parameters, a duration that is rejected, and the three messages of
  \<^verbatim>\<open>parseFileSize\<close> and \<^verbatim>\<open>parseBitRate\<close>.
\<close>

definition is_failure_message :: "string \<Rightarrow> string \<Rightarrow> bool" where
  "is_failure_message inp msg =
     (msg = ''Unknown tokens: '' @ join '', '' (unknownTokens (parseInputString inp)) \<or>
      msg = ''Invalid input. Provide at least two parameters to calculate the missing value.'' \<or>
      (case parsed (parseInputString inp) Duration of
         None \<Rightarrow> False
       | Some d \<Rightarrow> msg = ''Invalid duration format '' @ d) \<or>
      msg = ''Invalid file size format.'' \<or>
      msg = ''Invalid bit rate format.'' \<or>
      msg = ''Unsupported bit rate unit.'')"

subsection \<open>The tokenizer in the words of the specification\<close>

text \<open>
  Section 4.1 of the specification: ``Split \<^verbatim>\<open>rawLine\<close> on whitespace; trim and discard
  empty fragments; discard any token beginning with \<^verbatim>\<open>/\<close>''. It differs from
  \<open>tokenize\<close> in the separator only: every whitespace character splits.
\<close>

definition spec_tokenize :: "string \<Rightarrow> string list" where
  "spec_tokenize rawLine =
     filter (\<lambda>s. s \<noteq> [] \<and> \<not> startsWith s ''/'')
       (map trim (split_by is_whitespace rawLine))"

section \<open>Properties\<close>

subsection \<open>The classifier's loop\<close>

lemma unknownTokens_foldl:
  "unknownTokens (foldl classify_token st ts) =
     unknownTokens st @ filter (\<lambda>t. match_key regexes t = None) ts"
  by (induction ts arbitrary: st) (auto simp: classify_token_def split: option.splits)

lemma parsed_classify_token:
  "parsed (classify_token st a) key =
     (if match_key regexes a = Some key then Some a else parsed st key)"
  by (auto simp: classify_token_def split: option.splits)

lemma parsed_foldl:
  "parsed (foldl classify_token st ts) key =
     (case filter (\<lambda>t. match_key regexes t = Some key) ts of
        [] \<Rightarrow> parsed st key
      | t # fs \<Rightarrow> Some (last (t # fs)))"
proof (induction ts arbitrary: st)
  case Nil
  then show ?case by simp
next
  case (Cons a ts)
  have "parsed (foldl classify_token st (a # ts)) key =
          parsed (foldl classify_token (classify_token st a) ts) key"
    by simp
  also have "\<dots> =
      (case filter (\<lambda>t. match_key regexes t = Some key) ts of
         [] \<Rightarrow> parsed (classify_token st a) key
       | t # fs \<Rightarrow> Some (last (t # fs)))"
    by (rule Cons.IH)
  also have "\<dots> =
      (case filter (\<lambda>t. match_key regexes t = Some key) (a # ts) of
         [] \<Rightarrow> parsed st key
       | t # fs \<Rightarrow> Some (last (t # fs)))"
    by (simp add: parsed_classify_token split: list.splits)
  finally show ?case .
qed

lemma unknownTokens_parseInputString:
  "unknownTokens (parseInputString inp) = filter (\<lambda>t. match_key regexes t = None) (tokenize inp)"
  by (simp add: parseInputString_def unknownTokens_foldl)

lemma parsed_parseInputString:
  "parsed (parseInputString inp) key =
     (case filter (\<lambda>t. match_key regexes t = Some key) (tokenize inp) of
        [] \<Rightarrow> None
      | t # fs \<Rightarrow> Some (last (t # fs)))"
  by (simp add: parseInputString_def parsed_foldl split: list.splits)

lemma tokenize_nonempty: "t \<in> set (tokenize inp) \<Longrightarrow> t \<noteq> []"
  by (auto simp: tokenize_def)

lemma parsed_nonempty:
  assumes "parsed (parseInputString inp) key = Some t"
  shows "t \<noteq> []"
proof -
  let ?fs = "filter (\<lambda>t. match_key regexes t = Some key) (tokenize inp)"
  from assms have ne: "?fs \<noteq> []" and t: "t = last ?fs"
    by (auto simp: parsed_parseInputString split: list.splits)
  then have "t \<in> set ?fs"
    using last_in_set by blast
  then have "t \<in> set (tokenize inp)"
    by simp
  then show ?thesis
    by (rule tokenize_nonempty)
qed

text \<open>
  A token that the classifier takes for a file size starts with a digit, which is all
  that the pattern of \<^verbatim>\<open>parseFileSize\<close> asks for.
\<close>

lemma rx_test_dead1: "rx_test (Cat Nul r) s = False"
  by (induction s) auto

lemma rx_test_dead2: "rx_test (Cat (Cat Nul r) q) s = False"
  by (induction s) auto

lemma rx_test_dead3: "rx_test (Cat (Cat (Cat Nul r) q) p) s = False"
  by (induction s) auto

lemma rx_number_first_digit:
  assumes "rx_test (Cat rx_number u) t"
  shows "t \<noteq> [] \<and> is_digit (hd t)"
proof (cases t)
  case Nil
  with assms show ?thesis
    by (simp add: rx_number_def Plus_def Opt_def)
next
  case (Cons c cs)
  show ?thesis
  proof (cases "is_digit c")
    case True
    with Cons show ?thesis by simp
  next
    case False
    with assms Cons show ?thesis
      by (simp add: rx_number_def Plus_def Opt_def rx_test_dead3)
  qed
qed

lemma match_key_FileSize:
  "match_key regexes t = Some FileSize \<Longrightarrow>
     rx_test (Cat rx_number (AltL [Lit ''B'', Lit ''KB'', Lit ''MB'', Lit ''GB'', Lit ''TB''])) t"
  by (simp add: regexes_def split: if_splits)

lemma parsed_FileSize_parses:
  assumes "parsed (parseInputString inp) FileSize = Some f"
  shows "\<exists>bytes. parseFileSize (Some f) = Inr bytes"
proof -
  let ?fs = "filter (\<lambda>t. match_key regexes t = Some FileSize) (tokenize inp)"
  from assms have ne: "?fs \<noteq> []" and t: "f = last ?fs"
    by (auto simp: parsed_parseInputString split: list.splits)
  then have "f \<in> set ?fs"
    using last_in_set by blast
  then have "match_key regexes f = Some FileSize"
    by simp
  then have "rx_test (Cat rx_number (AltL [Lit ''B'', Lit ''KB'', Lit ''MB'', Lit ''GB'', Lit ''TB''])) f"
    by (rule match_key_FileSize)
  then have "f \<noteq> [] \<and> is_digit (hd f)"
    by (rule rx_number_first_digit)
  then have "dropWhile (\<lambda>c. \<not> is_digit c) f \<noteq> []"
    by (cases f) auto
  then have "sizeRegex_match f \<noteq> None"
    by (simp add: sizeRegex_match_def Let_def split: prod.splits)
  then show ?thesis
    by (auto simp: parseFileSize_def Let_def split: option.splits prod.splits)
qed

text \<open>The cases of the repository's test of \<^verbatim>\<open>parseInputString\<close>.\<close>

lemma parseInputString_test_cases:
  "parsed (parseInputString ''500MB'') FileSize = Some ''500MB'' \<and>
   parsed (parseInputString ''30m'') Duration = Some ''30m'' \<and>
   parsed (parseInputString ''30.5m'') Duration = Some ''30.5m'' \<and>
   parsed (parseInputString ''1h30m'') Duration = Some ''1h30m'' \<and>
   parsed (parseInputString ''1h30m20s'') Duration = Some ''1h30m20s'' \<and>
   parsed (parseInputString ''1920x1080'') Resolution = Some ''1920x1080'' \<and>
   parsed (parseInputString ''25fps'') FrameRate = Some ''25fps'' \<and>
   parsed (parseInputString ''1Mbps'') BitRate = Some ''1Mbps'' \<and>
   parsed (parseInputString ''1.5Mbps'') BitRate = Some ''1.5Mbps'' \<and>
   parsed (parseInputString ''1M'') BitRate = Some ''1M'' \<and>
   unknownTokens (parseInputString ''1M'') = [] \<and>
   unknownTokens (parseInputString ''unknown'') = [''unknown''] \<and>
   parsed (parseInputString ''500MB unknown'') FileSize = Some ''500MB'' \<and>
   unknownTokens (parseInputString ''500MB unknown'') = [''unknown'']"
  by code_simp

subsection \<open>What can be thrown\<close>

lemma parseFileSize_Some_Inl:
  "parseFileSize (Some f) = Inl e \<Longrightarrow> e = Error ''Invalid file size format.''"
  by (auto simp: parseFileSize_def Let_def split: option.splits prod.splits if_splits)

lemma parseBitRate_Some_Inl:
  "parseBitRate (Some b) = Inl e \<Longrightarrow>
     e = Error ''Invalid bit rate format.'' \<or> e = Error ''Unsupported bit rate unit.''"
  by (auto simp: parseBitRate_def Let_def split: option.splits prod.splits if_splits)

lemma calculateDuration_Some_Inl:
  "calculateDuration (Some f) (Some b) res fr = Inl e \<Longrightarrow>
     e = Error ''Invalid file size format.'' \<or> e = Error ''Invalid bit rate format.'' \<or>
     e = Error ''Unsupported bit rate unit.''"
  by (auto simp: calculateDuration_def bind_exn_def Let_def split: sum.splits
           dest!: parseFileSize_Some_Inl parseBitRate_Some_Inl)

lemma calculateBitRate_Some_Inl:
  "calculateBitRate (Some f) d res fr = Inl e \<Longrightarrow> e = Error ''Invalid file size format.''"
  by (auto simp: calculateBitRate_def bind_exn_def Let_def split: sum.splits
           dest!: parseFileSize_Some_Inl)

lemma calculateFileSize_Some_Inl:
  "calculateFileSize (Some b) d res fr = Inl e \<Longrightarrow>
     e = Error ''Invalid bit rate format.'' \<or> e = Error ''Unsupported bit rate unit.''"
  by (auto simp: calculateFileSize_def bind_exn_def Let_def split: sum.splits
           dest!: parseBitRate_Some_Inl)

lemma bind_exn_Inl:
  "bind_exn m (\<lambda>v. Inr (f v)) = Inl e \<Longrightarrow> m = Inl e"
  by (cases m) (auto simp: bind_exn_def)

text \<open>The paths through the statements under \<^verbatim>\<open>try\<close>, one lemma each.\<close>

lemma try_unknown:
  assumes "unknownTokens (parseInputString inp) \<noteq> []"
  shows "parseInput_try inp =
           Inl (Error (''Unknown tokens: '' @ join '', '' (unknownTokens (parseInputString inp))))"
  using assms by (simp add: parseInput_try_def Let_def)

lemma try_wrong_count:
  assumes "unknownTokens (parseInputString inp) = []"
    and "length (filter (\<lambda>key. parsed (parseInputString inp) key = None) requiredKeys) \<noteq> 1"
  shows "parseInput_try inp =
           Inl (Error ''Invalid input. Provide at least two parameters to calculate the missing value.'')"
  using assms by (simp add: parseInput_try_def Let_def)

lemma try_missing_duration:
  assumes "unknownTokens (parseInputString inp) = []"
    and "parsed (parseInputString inp) Duration = None"
    and "parsed (parseInputString inp) FileSize = Some f"
    and "parsed (parseInputString inp) BitRate = Some b"
  shows "parseInput_try inp =
           bind_exn (calculateDuration (Some f) (Some b)
                       (parsed (parseInputString inp) Resolution) (parsed (parseInputString inp) FrameRate))
             (\<lambda>calculatedDuration. Inr (''Duration '' @ calculatedDuration))"
  using assms by (simp add: parseInput_try_def Let_def requiredKeys_def bind_exn_def)

lemma try_invalid_duration:
  assumes "unknownTokens (parseInputString inp) = []"
    and "length (filter (\<lambda>key. parsed (parseInputString inp) key = None) requiredKeys) = 1"
    and "parsed (parseInputString inp) Duration = Some d"
    and "\<not> truthy (parseDuration d)"
  shows "parseInput_try inp = Inl (Error (''Invalid duration format '' @ d))"
  using assms by (simp add: parseInput_try_def Let_def bind_exn_def)

lemma try_missing_bitRate:
  assumes "unknownTokens (parseInputString inp) = []"
    and "parsed (parseInputString inp) Duration = Some d"
    and "parseDuration d = Some secs" and "num_truthy secs"
    and "parsed (parseInputString inp) FileSize = Some f"
    and "parsed (parseInputString inp) BitRate = None"
  shows "parseInput_try inp =
           bind_exn (calculateBitRate (Some f) secs
                       (parsed (parseInputString inp) Resolution) (parsed (parseInputString inp) FrameRate))
             (\<lambda>calculatedBitRate. Inr (''Bit rate: '' @ calculatedBitRate))"
  using assms by (simp add: parseInput_try_def Let_def requiredKeys_def bind_exn_def)

lemma try_missing_fileSize:
  assumes "unknownTokens (parseInputString inp) = []"
    and "parsed (parseInputString inp) Duration = Some d"
    and "parseDuration d = Some secs" and "num_truthy secs"
    and "parsed (parseInputString inp) FileSize = None"
    and "parsed (parseInputString inp) BitRate = Some b"
  shows "parseInput_try inp =
           bind_exn (calculateFileSize (Some b) secs None None)
             (\<lambda>calculatedFileSize. Inr (''File size: '' @ calculatedFileSize))"
proof -
  from assms(6) have "b \<noteq> []" by (rule parsed_nonempty)
  with assms show ?thesis
    by (simp add: parseInput_try_def Let_def requiredKeys_def bind_exn_def)
qed

text \<open>Exactly one of the three required keys is missing: the three ways.\<close>

lemma missing_one_cases:
  assumes "length (filter (\<lambda>key. p key = None) requiredKeys) = 1"
  shows "(p Duration = None \<and> p FileSize \<noteq> None \<and> p BitRate \<noteq> None) \<or>
         (p Duration \<noteq> None \<and> p FileSize = None \<and> p BitRate \<noteq> None) \<or>
         (p Duration \<noteq> None \<and> p FileSize \<noteq> None \<and> p BitRate = None)"
  using assms by (auto simp: requiredKeys_def split: if_splits)

lemma fm_unknown:
  "is_failure_message inp (''Unknown tokens: '' @ join '', '' (unknownTokens (parseInputString inp)))"
  by (simp add: is_failure_message_def)

lemma fm_count:
  "is_failure_message inp
     ''Invalid input. Provide at least two parameters to calculate the missing value.''"
  by (simp add: is_failure_message_def)

lemma fm_duration:
  "parsed (parseInputString inp) Duration = Some d \<Longrightarrow>
     is_failure_message inp (''Invalid duration format '' @ d)"
  by (simp add: is_failure_message_def)

lemma fm_formats:
  "is_failure_message inp ''Invalid file size format.''"
  "is_failure_message inp ''Invalid bit rate format.''"
  "is_failure_message inp ''Unsupported bit rate unit.''"
  by (simp_all add: is_failure_message_def)

text \<open>
  Whatever the statements under \<^verbatim>\<open>try\<close> throw is an \<^verbatim>\<open>Error\<close> with one of the
  messages of the failure paths: the calculators are reached only with the two strings
  they read defined, so no method is called on \<^verbatim>\<open>undefined\<close>, and the last
  \<^verbatim>\<open>throw\<close> of the function is never reached.
\<close>

lemma parseInput_try_Inl:
  assumes thrown: "parseInput_try inp = Inl e"
  shows "\<exists>msg. is_failure_message inp msg \<and> e = Error msg"
proof (cases "unknownTokens (parseInputString inp) = []")
  case False
  from try_unknown[OF False] thrown
  have "e = Error (''Unknown tokens: '' @ join '', '' (unknownTokens (parseInputString inp)))"
    by simp
  then show ?thesis
    using fm_unknown by blast
next
  case no_unknown: True
  let ?p = "parsed (parseInputString inp)"
  show ?thesis
  proof (cases "length (filter (\<lambda>key. ?p key = None) requiredKeys) = 1")
    case False
    from try_wrong_count[OF no_unknown False] thrown
    have "e = Error ''Invalid input. Provide at least two parameters to calculate the missing value.''"
      by simp
    then show ?thesis
      using fm_count by blast
  next
    case one: True
    from missing_one_cases[OF one] consider
        (dur) f b where "?p Duration = None" "?p FileSize = Some f" "?p BitRate = Some b"
      | (size) d b where "?p Duration = Some d" "?p FileSize = None" "?p BitRate = Some b"
      | (rate) d f where "?p Duration = Some d" "?p FileSize = Some f" "?p BitRate = None"
      by auto
    then show ?thesis
    proof cases
      case dur
      from try_missing_duration[OF no_unknown dur] thrown
      have "bind_exn (calculateDuration (Some f) (Some b) (?p Resolution) (?p FrameRate))
              (\<lambda>c. Inr (''Duration '' @ c)) = Inl e"
        by simp
      then have "calculateDuration (Some f) (Some b) (?p Resolution) (?p FrameRate) = Inl e"
        by (rule bind_exn_Inl)
      from calculateDuration_Some_Inl[OF this] show ?thesis
        using fm_formats by blast
    next
      case size
      show ?thesis
      proof (cases "truthy (parseDuration d)")
        case False
        from try_invalid_duration[OF no_unknown one size(1) False] thrown
        have "e = Error (''Invalid duration format '' @ d)"
          by simp
        then show ?thesis
          using fm_duration[OF size(1)] by blast
      next
        case True
        then obtain secs where secs: "parseDuration d = Some secs" "num_truthy secs"
          by (cases "parseDuration d") auto
        from try_missing_fileSize[OF no_unknown size(1) secs size(2,3)] thrown
        have "bind_exn (calculateFileSize (Some b) secs None None)
                (\<lambda>c. Inr (''File size: '' @ c)) = Inl e"
          by simp
        then have "calculateFileSize (Some b) secs None None = Inl e"
          by (rule bind_exn_Inl)
        from calculateFileSize_Some_Inl[OF this] show ?thesis
          using fm_formats by blast
      qed
    next
      case rate
      show ?thesis
      proof (cases "truthy (parseDuration d)")
        case False
        from try_invalid_duration[OF no_unknown one rate(1) False] thrown
        have "e = Error (''Invalid duration format '' @ d)"
          by simp
        then show ?thesis
          using fm_duration[OF rate(1)] by blast
      next
        case True
        then obtain secs where secs: "parseDuration d = Some secs" "num_truthy secs"
          by (cases "parseDuration d") auto
        from try_missing_bitRate[OF no_unknown rate(1) secs rate(2,3)] thrown
        have "bind_exn (calculateBitRate (Some f) secs (?p Resolution) (?p FrameRate))
                (\<lambda>c. Inr (''Bit rate: '' @ c)) = Inl e"
          by simp
        then have "calculateBitRate (Some f) secs (?p Resolution) (?p FrameRate) = Inl e"
          by (rule bind_exn_Inl)
        from calculateBitRate_Some_Inl[OF this] show ?thesis
          using fm_formats by blast
      qed
    qed
  qed
qed

lemma is_failure_message_nonempty: "is_failure_message inp msg \<Longrightarrow> msg \<noteq> []"
  by (auto simp: is_failure_message_def split: option.splits)

subsection \<open>Splitting and arithmetic\<close>

lemma split_by_cong:
  "(\<And>c. c \<in> set s \<Longrightarrow> P c = Q c) \<Longrightarrow> split_by P s = split_by Q s"
  by (induction s) auto

lemma split_by_nonempty: "split_by P s \<noteq> []"
  by (induction s) (auto split: list.splits)

text \<open>No fragment of a split holds a separator.\<close>

lemma split_by_no_sep:
  "x \<in> set (split_by P s) \<Longrightarrow> c \<in> set x \<Longrightarrow> \<not> P c"
proof (induction s arbitrary: x)
  case Nil
  then show ?case by simp
next
  case (Cons a s)
  show ?case
  proof (cases "P a")
    case True
    with Cons show ?thesis by auto
  next
    case False
    obtain y ys where ys: "split_by P s = y # ys"
      using split_by_nonempty by (cases "split_by P s") auto
    with False Cons.prems have "x = a # y \<or> x \<in> set ys"
      by auto
    then show ?thesis
    proof
      assume "x = a # y"
      with Cons.prems(2) have "c = a \<or> c \<in> set y" by auto
      then show ?thesis
        using False Cons.IH[of y] ys by auto
    next
      assume "x \<in> set ys"
      then show ?thesis
        using Cons.IH[of x] Cons.prems(2) ys by auto
    qed
  qed
qed

lemma set_trim: "set (trim s) \<subseteq> set s"
proof -
  have "set (trim s) \<subseteq> set (dropWhile is_whitespace s)"
    unfolding trim_def using set_dropWhileD by fastforce
  also have "\<dots> \<subseteq> set s"
    using set_dropWhileD by fastforce
  finally show ?thesis .
qed

lemma last_trim:
  assumes "trim s \<noteq> []"
  shows "\<not> is_whitespace (last (trim s))"
proof -
  let ?ys = "dropWhile is_whitespace (rev (dropWhile is_whitespace s))"
  from assms have ne: "?ys \<noteq> []"
    by (simp add: trim_def)
  then have "\<not> is_whitespace (hd ?ys)"
    by (rule hd_dropWhile)
  moreover have "last (trim s) = hd ?ys"
    using ne by (simp add: trim_def last_rev)
  ultimately show ?thesis by simp
qed

lemma hd_trim:
  assumes "trim s \<noteq> []"
  shows "\<not> is_whitespace (hd (trim s))"
proof -
  let ?xs = "dropWhile is_whitespace s"
  have "?xs = rev (takeWhile is_whitespace (rev ?xs) @ dropWhile is_whitespace (rev ?xs))"
    by (simp only: takeWhile_dropWhile_id rev_rev_ident)
  then have split: "?xs = trim s @ rev (takeWhile is_whitespace (rev ?xs))"
    by (simp only: rev_append trim_def)
  with assms have "hd ?xs = hd (trim s)"
    by (metis hd_append2)
  moreover from split assms have "?xs \<noteq> []"
    by (metis Nil_is_append_conv)
  then have "\<not> is_whitespace (hd ?xs)"
    by (rule hd_dropWhile)
  ultimately show ?thesis by simp
qed

text \<open>What every token is: a trimmed, non-empty fragment without a space or a leading slash.\<close>

lemma tokenize_tokens:
  assumes "t \<in> set (tokenize inp)"
  shows "t \<noteq> [] \<and> hd t \<noteq> CHR ''/'' \<and> CHR '' '' \<notin> set t \<and>
         \<not> is_whitespace (hd t) \<and> \<not> is_whitespace (last t)"
proof -
  from assms obtain f where f: "f \<in> set (split_char CHR '' '' inp)" and t: "t = trim f"
    and ne: "t \<noteq> []" and sl: "\<not> startsWith t ''/''"
    by (auto simp: tokenize_def)
  from ne sl have "hd t \<noteq> CHR ''/''"
    by (cases t) (auto simp: startsWith_def)
  moreover have "CHR '' '' \<notin> set t"
  proof
    assume "CHR '' '' \<in> set t"
    with t set_trim have "CHR '' '' \<in> set f" by auto
    with f show False
      using split_by_no_sep[of f "\<lambda>c. c = CHR '' ''" inp "CHR '' ''"] by (simp add: split_char_def)
  qed
  moreover from ne t have "\<not> is_whitespace (hd t)" "\<not> is_whitespace (last t)"
    using hd_trim last_trim by auto
  ultimately show ?thesis using ne by simp
qed

text \<open>Splitting distributes over a separator, and a string without one is one fragment.\<close>

lemma split_by_append:
  assumes "P sep"
  shows "split_by P (a @ sep # b) = split_by P a @ split_by P b"
proof (induction a)
  case Nil
  from assms show ?case by simp
next
  case (Cons c a)
  obtain y ys where ys: "split_by P a = y # ys"
    using split_by_nonempty by (cases "split_by P a") auto
  with Cons show ?case
    by simp
qed

lemma split_by_none:
  "(\<And>c. c \<in> set s \<Longrightarrow> \<not> P c) \<Longrightarrow> split_by P s = [s]"
  by (induction s) auto

lemma tokenize_append:
  "tokenize (a @ CHR '' '' # b) = tokenize a @ tokenize b"
  by (simp add: tokenize_def split_char_def split_by_append)

lemma tokenize_no_space:
  assumes "CHR '' '' \<notin> set inp"
  shows "tokenize inp = (if trim inp \<noteq> [] \<and> \<not> startsWith (trim inp) ''/'' then [trim inp] else [])"
proof -
  have "split_by (\<lambda>c. c = CHR '' '') inp = [inp]"
    using assms by (intro split_by_none) auto
  then show ?thesis
    by (simp add: tokenize_def split_char_def)
qed

subsection \<open>Rounding to binary64\<close>








subsection \<open>parseInput never raises\<close>

text \<open>
  C1. For every input string \<open>rawLine\<close>, \<^verbatim>\<open>parseInput(rawLine)\<close> returns a
  \<^verbatim>\<open>CalculationResult\<close> (the model is a total function, and every exception of the
  body is caught) whose \<^verbatim>\<open>input\<close> is \<open>rawLine\<close> unchanged, and on every failure
  path the \<^verbatim>\<open>output\<close> is \<^verbatim>\<open>"Error: "\<close> followed by the message of that path:
  \<^item> a line with unknown tokens answers \<^verbatim>\<open>"Error: Unknown tokens: "\<close> and the tokens;
  \<^item> a line without unknown tokens that does not lack exactly one of bit rate,
    duration and file size answers \<^verbatim>\<open>"Error: Invalid input. ..."\<close>;
  \<^item> a line that lacks exactly one of them and whose duration token \<open>d\<close> parses to
    nothing or to zero answers \<^verbatim>\<open>"Error: Invalid duration format "\<close> and \<open>d\<close>;
  \<^item> a line with a file size and a bit rate, or with a duration and a bit rate, whose
    bit-rate token \<^verbatim>\<open>parseBitRate\<close> rejects answers \<^verbatim>\<open>"Error: "\<close> and the message
    of \<^verbatim>\<open>parseBitRate\<close>;
  \<^item> \<^verbatim>\<open>parseFileSize\<close> rejects no token that the classifier has taken for a file
    size, so the file-size format message does not arise from \<^verbatim>\<open>parseInput\<close>;
  \<^item> and whenever the statements under \<^verbatim>\<open>try\<close> throw at all, the exception is an
    \<^verbatim>\<open>Error\<close> with the message of one of these paths, and the \<^verbatim>\<open>output\<close> is
    \<^verbatim>\<open>"Error: "\<close> followed by that message.
\<close>

theorem parseInput_never_raises:
  "input (parseInput rawLine) = rawLine \<and>
   (unknownTokens (parseInputString rawLine) \<noteq> [] \<longrightarrow>
      output (parseInput rawLine) =
        ''Error: Unknown tokens: '' @ join '', '' (unknownTokens (parseInputString rawLine))) \<and>
   (unknownTokens (parseInputString rawLine) = [] \<and>
    length (filter (\<lambda>key. parsed (parseInputString rawLine) key = None) requiredKeys) \<noteq> 1 \<longrightarrow>
      output (parseInput rawLine) =
        ''Error: Invalid input. Provide at least two parameters to calculate the missing value.'') \<and>
   (\<forall>d. unknownTokens (parseInputString rawLine) = [] \<and>
        length (filter (\<lambda>key. parsed (parseInputString rawLine) key = None) requiredKeys) = 1 \<and>
        parsed (parseInputString rawLine) Duration = Some d \<and>
        \<not> truthy (parseDuration d) \<longrightarrow>
      output (parseInput rawLine) = ''Error: Invalid duration format '' @ d) \<and>
   (\<forall>f b bytes e.
        unknownTokens (parseInputString rawLine) = [] \<and>
        parsed (parseInputString rawLine) Duration = None \<and>
        parsed (parseInputString rawLine) FileSize = Some f \<and>
        parsed (parseInputString rawLine) BitRate = Some b \<and>
        parseFileSize (Some f) = Inr bytes \<and> parseBitRate (Some b) = Inl e \<longrightarrow>
      (\<exists>msg. (msg = ''Invalid bit rate format.'' \<or> msg = ''Unsupported bit rate unit.'') \<and>
             e = Error msg \<and> output (parseInput rawLine) = ''Error: '' @ msg)) \<and>
   (\<forall>d secs b e.
        unknownTokens (parseInputString rawLine) = [] \<and>
        parsed (parseInputString rawLine) Duration = Some d \<and>
        parseDuration d = Some secs \<and> num_truthy secs \<and>
        parsed (parseInputString rawLine) FileSize = None \<and>
        parsed (parseInputString rawLine) BitRate = Some b \<and>
        parseBitRate (Some b) = Inl e \<longrightarrow>
      (\<exists>msg. (msg = ''Invalid bit rate format.'' \<or> msg = ''Unsupported bit rate unit.'') \<and>
             e = Error msg \<and> output (parseInput rawLine) = ''Error: '' @ msg)) \<and>
   (\<forall>f. parsed (parseInputString rawLine) FileSize = Some f \<longrightarrow>
      (\<exists>bytes. parseFileSize (Some f) = Inr bytes)) \<and>
   (\<forall>e. parseInput_try rawLine = Inl e \<longrightarrow>
      (\<exists>msg. is_failure_message rawLine msg \<and> e = Error msg \<and>
             output (parseInput rawLine) = ''Error: '' @ msg) \<and>
      startsWith (output (parseInput rawLine)) ''Error: '')"
proof (intro conjI allI impI)
  show "input (parseInput rawLine) = rawLine"
    by (simp add: parseInput_def split: sum.splits)
next
  assume "unknownTokens (parseInputString rawLine) \<noteq> []"
  then have "parseInput_try rawLine =
           Inl (Error (''Unknown tokens: '' @ join '', '' (unknownTokens (parseInputString rawLine))))"
    by (rule try_unknown)
  then show "output (parseInput rawLine) =
        ''Error: Unknown tokens: '' @ join '', '' (unknownTokens (parseInputString rawLine))"
    by (simp add: parseInput_def)
next
  assume "unknownTokens (parseInputString rawLine) = [] \<and>
    length (filter (\<lambda>key. parsed (parseInputString rawLine) key = None) requiredKeys) \<noteq> 1"
  then have "parseInput_try rawLine =
           Inl (Error ''Invalid input. Provide at least two parameters to calculate the missing value.'')"
    by (intro try_wrong_count) simp_all
  then show "output (parseInput rawLine) =
        ''Error: Invalid input. Provide at least two parameters to calculate the missing value.''"
    by (simp add: parseInput_def)
next
  fix d
  assume "unknownTokens (parseInputString rawLine) = [] \<and>
        length (filter (\<lambda>key. parsed (parseInputString rawLine) key = None) requiredKeys) = 1 \<and>
        parsed (parseInputString rawLine) Duration = Some d \<and>
        \<not> truthy (parseDuration d)"
  then have "parseInput_try rawLine = Inl (Error (''Invalid duration format '' @ d))"
    by (intro try_invalid_duration) simp_all
  then show "output (parseInput rawLine) = ''Error: Invalid duration format '' @ d"
    by (simp add: parseInput_def)
next
  fix f b bytes e
  assume h: "unknownTokens (parseInputString rawLine) = [] \<and>
        parsed (parseInputString rawLine) Duration = None \<and>
        parsed (parseInputString rawLine) FileSize = Some f \<and>
        parsed (parseInputString rawLine) BitRate = Some b \<and>
        parseFileSize (Some f) = Inr bytes \<and> parseBitRate (Some b) = Inl e"
  then have "parseInput_try rawLine =
           bind_exn (calculateDuration (Some f) (Some b)
                       (parsed (parseInputString rawLine) Resolution) (parsed (parseInputString rawLine) FrameRate))
             (\<lambda>calculatedDuration. Inr (''Duration '' @ calculatedDuration))"
    by (intro try_missing_duration) simp_all
  moreover from h have "calculateDuration (Some f) (Some b)
                       (parsed (parseInputString rawLine) Resolution) (parsed (parseInputString rawLine) FrameRate) = Inl e"
    by (simp add: calculateDuration_def bind_exn_def)
  ultimately have thrown: "parseInput_try rawLine = Inl e"
    by (simp add: bind_exn_def)
  from h have "e = Error ''Invalid bit rate format.'' \<or> e = Error ''Unsupported bit rate unit.''"
    by (intro parseBitRate_Some_Inl[of b]) simp
  with thrown
  show "\<exists>msg. (msg = ''Invalid bit rate format.'' \<or> msg = ''Unsupported bit rate unit.'') \<and>
             e = Error msg \<and> output (parseInput rawLine) = ''Error: '' @ msg"
    by (auto simp: parseInput_def)
next
  fix d secs b e
  assume h: "unknownTokens (parseInputString rawLine) = [] \<and>
        parsed (parseInputString rawLine) Duration = Some d \<and>
        parseDuration d = Some secs \<and> num_truthy secs \<and>
        parsed (parseInputString rawLine) FileSize = None \<and>
        parsed (parseInputString rawLine) BitRate = Some b \<and>
        parseBitRate (Some b) = Inl e"
  then have "parseInput_try rawLine =
           bind_exn (calculateFileSize (Some b) secs None None)
             (\<lambda>calculatedFileSize. Inr (''File size: '' @ calculatedFileSize))"
    by (intro try_missing_fileSize[of rawLine d secs b]) simp_all
  moreover from h have "calculateFileSize (Some b) secs None None = Inl e"
    by (simp add: calculateFileSize_def bind_exn_def)
  ultimately have thrown: "parseInput_try rawLine = Inl e"
    by (simp add: bind_exn_def)
  from h have "e = Error ''Invalid bit rate format.'' \<or> e = Error ''Unsupported bit rate unit.''"
    by (intro parseBitRate_Some_Inl[of b]) simp
  with thrown
  show "\<exists>msg. (msg = ''Invalid bit rate format.'' \<or> msg = ''Unsupported bit rate unit.'') \<and>
             e = Error msg \<and> output (parseInput rawLine) = ''Error: '' @ msg"
    by (auto simp: parseInput_def)
next
  fix f
  assume "parsed (parseInputString rawLine) FileSize = Some f"
  then show "\<exists>bytes. parseFileSize (Some f) = Inr bytes"
    by (rule parsed_FileSize_parses)
next
  fix e
  assume thrown: "parseInput_try rawLine = Inl e"
  then obtain msg where msg: "is_failure_message rawLine msg" "e = Error msg"
    using parseInput_try_Inl by blast
  from msg(1) have "msg \<noteq> []"
    by (rule is_failure_message_nonempty)
  with thrown msg(2) have out: "output (parseInput rawLine) = ''Error: '' @ msg"
    by (simp add: parseInput_def)
  from msg out
  show "\<exists>msg. is_failure_message rawLine msg \<and> e = Error msg \<and>
          output (parseInput rawLine) = ''Error: '' @ msg"
    by blast
  from out show "startsWith (output (parseInput rawLine)) ''Error: ''"
    by (simp add: startsWith_def)
qed

text \<open>
  The theorem at one line for each failure path: two unknown tokens, a bit rate alone,
  a duration of zero seconds, and a bit rate in \<^verbatim>\<open>bps\<close>, which \<^verbatim>\<open>parseBitRate\<close>
  rejects after the classifier has accepted it, beside a file size and beside a
  duration.
\<close>

theorem parseInput_never_raises_witness:
  "input (parseInput ''10X 20Y'') = ''10X 20Y'' \<and>
   output (parseInput ''10X 20Y'') = ''Error: Unknown tokens: 10X, 20Y'' \<and>
   output (parseInput ''500kbps'') =
     ''Error: Invalid input. Provide at least two parameters to calculate the missing value.'' \<and>
   output (parseInput ''0s 10MB'') = ''Error: Invalid duration format 0s'' \<and>
   output (parseInput ''500bps 10MB'') = ''Error: Unsupported bit rate unit.'' \<and>
   output (parseInput ''500bps 2h'') = ''Error: Unsupported bit rate unit.'' \<and>
   parsed (parseInputString ''500bps 10MB'') FileSize = Some ''10MB'' \<and>
   (\<exists>bytes. parseFileSize (Some ''10MB'') = Inr bytes) \<and>
   parseInput_try ''500bps 2h'' = Inl (Error ''Unsupported bit rate unit.'') \<and>
   startsWith (output (parseInput ''500bps 2h'')) ''Error: ''"
proof -
  have u: "unknownTokens (parseInputString ''10X 20Y'') \<noteq> []"
    "join '', '' (unknownTokens (parseInputString ''10X 20Y'')) = ''10X, 20Y''"
    by code_simp+
  have c: "unknownTokens (parseInputString ''500kbps'') = [] \<and>
    length (filter (\<lambda>key. parsed (parseInputString ''500kbps'') key = None) requiredKeys) \<noteq> 1"
    by code_simp
  have d: "unknownTokens (parseInputString ''0s 10MB'') = [] \<and>
        length (filter (\<lambda>key. parsed (parseInputString ''0s 10MB'') key = None) requiredKeys) = 1 \<and>
        parsed (parseInputString ''0s 10MB'') Duration = Some ''0s'' \<and>
        \<not> truthy (parseDuration ''0s'')"
    by code_simp
  have m: "unknownTokens (parseInputString ''500bps 10MB'') = [] \<and>
        parsed (parseInputString ''500bps 10MB'') Duration = None \<and>
        parsed (parseInputString ''500bps 10MB'') FileSize = Some ''10MB'' \<and>
        parsed (parseInputString ''500bps 10MB'') BitRate = Some ''500bps'' \<and>
        parseFileSize (Some ''10MB'') = Inr (Fin 10000000) \<and>
        parseBitRate (Some ''500bps'') = Inl (Error ''Unsupported bit rate unit.'')"
    by code_simp
  have f: "unknownTokens (parseInputString ''500bps 2h'') = [] \<and>
        parsed (parseInputString ''500bps 2h'') Duration = Some ''2h'' \<and>
        parseDuration ''2h'' = Some (Fin 7200) \<and> num_truthy (Fin 7200) \<and>
        parsed (parseInputString ''500bps 2h'') FileSize = None \<and>
        parsed (parseInputString ''500bps 2h'') BitRate = Some ''500bps'' \<and>
        parseBitRate (Some ''500bps'') = Inl (Error ''Unsupported bit rate unit.'')"
    by code_simp
  have t: "parseInput_try ''500bps 2h'' = Inl (Error ''Unsupported bit rate unit.'')"
    by code_simp
  from parseInput_never_raises [of "''10X 20Y''"] u
  have r1: "input (parseInput ''10X 20Y'') = ''10X 20Y'' \<and>
            output (parseInput ''10X 20Y'') = ''Error: Unknown tokens: 10X, 20Y''"
    by simp
  from parseInput_never_raises [of "''500kbps''"] c
  have r2: "output (parseInput ''500kbps'') =
     ''Error: Invalid input. Provide at least two parameters to calculate the missing value.''"
    by blast
  from parseInput_never_raises [of "''0s 10MB''"] d
  have "output (parseInput ''0s 10MB'') = ''Error: Invalid duration format '' @ ''0s''"
    by blast
  then have r3: "output (parseInput ''0s 10MB'') = ''Error: Invalid duration format 0s''"
    by simp
  from parseInput_never_raises [of "''500bps 10MB''"] m
  have "\<exists>msg. Error ''Unsupported bit rate unit.'' = Error msg \<and>
          output (parseInput ''500bps 10MB'') = ''Error: '' @ msg"
    by blast
  then have r4: "output (parseInput ''500bps 10MB'') = ''Error: Unsupported bit rate unit.''"
    by auto
  from parseInput_never_raises [of "''500bps 2h''"] f
  have "\<exists>msg. Error ''Unsupported bit rate unit.'' = Error msg \<and>
          output (parseInput ''500bps 2h'') = ''Error: '' @ msg"
    by blast
  then have r5: "output (parseInput ''500bps 2h'') = ''Error: Unsupported bit rate unit.''"
    by auto
  from parseInput_never_raises [of "''500bps 2h''"] t
  have r6: "startsWith (output (parseInput ''500bps 2h'')) ''Error: ''"
    by blast
  from parseInput_never_raises [of "''500bps 10MB''"] m
  have r7: "parsed (parseInputString ''500bps 10MB'') FileSize = Some ''10MB'' \<and>
            (\<exists>bytes. parseFileSize (Some ''10MB'') = Inr bytes)"
    by blast
  from r1 r2 r3 r4 r5 r6 r7 t show ?thesis
    by blast
qed

subsection \<open>The number of parameters\<close>

text \<open>
  C2. The claim: on a line with no unknown tokens on which the number of missing
  kinds among \<open>bitRate\<close>, \<open>duration\<close>, \<open>fileSize\<close> is not one, the output is
  \<^verbatim>\<open>"Error: Provide only two parameters to calculate the missing value."\<close>. The code
  answers every such line with another message, the one of this theorem; the
  repository's test expects the claim's message for \<^verbatim>\<open>"500kbps"\<close>.
\<close>

theorem wrong_count_message:
  assumes "unknownTokens (parseInputString inp) = []"
    and "length (filter (\<lambda>key. parsed (parseInputString inp) key = None) requiredKeys) \<noteq> 1"
  shows "output (parseInput inp) =
           ''Error: Invalid input. Provide at least two parameters to calculate the missing value.''"
  using assms
  by (simp add: parseInput_def parseInput_try_def Let_def)

theorem wrong_count_message_witness:
  "unknownTokens (parseInputString ''500kbps'') = [] \<and>
   length (filter (\<lambda>key. parsed (parseInputString ''500kbps'') key = None) requiredKeys) = 2 \<and>
   output (parseInput ''500kbps'') =
     ''Error: Invalid input. Provide at least two parameters to calculate the missing value.''"
proof -
  have a: "unknownTokens (parseInputString ''500kbps'') = []"
    by code_simp
  have b: "length (filter (\<lambda>key. parsed (parseInputString ''500kbps'') key = None) requiredKeys) = 2"
    by code_simp
  then have c: "length (filter (\<lambda>key. parsed (parseInputString ''500kbps'') key = None) requiredKeys) \<noteq> 1"
    by simp
  from wrong_count_message [OF a c] a b show ?thesis
    by simp
qed

text \<open>
  C3. The claim: \<^verbatim>\<open>parseInput("500kbps 00:02:00 10MB")\<close>, with all three values, answers
  \<^verbatim>\<open>"Error: All values were provided. Nothing to calculate."\<close>. The code stops earlier,
  at the check that exactly one key is missing, and answers with that check's message;
  the statement that throws the claim's message is never reached.
\<close>

theorem all_three_message:
  "output (parseInput ''500kbps 00:02:00 10MB'') =
     ''Error: Invalid input. Provide at least two parameters to calculate the missing value.''"
  by code_simp

subsection \<open>Binary units\<close>

text \<open>
  C4. The claim: \<^verbatim>\<open>"700MiB"\<close> is a file size, \<^verbatim>\<open>parseFileSize\<close> gives the suffixes
  \<^verbatim>\<open>KiB\<close>, \<^verbatim>\<open>MiB\<close>, \<^verbatim>\<open>GiB\<close>, \<^verbatim>\<open>TiB\<close> the multipliers \<open>2^10\<close>, \<open>2^20\<close>, \<open>2^30\<close>, \<open>2^40\<close>,
  and \<^verbatim>\<open>parseInput("700MiB 2h")\<close> answers \<^verbatim>\<open>"Bit rate: 816 kbps"\<close>. In the code no
  pattern accepts \<^verbatim>\<open>"700MiB"\<close>, \<^verbatim>\<open>parseFileSize\<close> reads the unit of \<^verbatim>\<open>"1MiB"\<close> as
  \<^verbatim>\<open>"M"\<close> and multiplies by 1, and the line is answered with the unknown token.
\<close>

theorem binary_units_not_recognised:
  "match_key regexes ''700MiB'' = None \<and>
   parseFileSize (Some ''1KiB'') = Inr (Fin 1) \<and>
   parseFileSize (Some ''1MiB'') = Inr (Fin 1) \<and>
   parseFileSize (Some ''1GiB'') = Inr (Fin 1) \<and>
   parseFileSize (Some ''1TiB'') = Inr (Fin 1) \<and>
   output (parseInput ''700MiB 2h'') = ''Error: Unknown tokens: 700MiB''"
  by code_simp

subsection \<open>parseDuration\<close>

text \<open>
  C5. The claim: \<^verbatim>\<open>parseDuration("01:01:01")\<close> is 3661, \<^verbatim>\<open>parseDuration("1h30m20s")\<close> is
  5420 and \<^verbatim>\<open>parseDuration("invalid")\<close> is \<^verbatim>\<open>null\<close>. The first two hold. On
  \<^verbatim>\<open>"invalid"\<close> the pattern matches the empty string, no group takes part, and the
  code returns 0.
\<close>

theorem parseDuration_examples:
  "parseDuration ''01:01:01'' = Some (Fin 3661) \<and>
   parseDuration ''1h30m20s'' = Some (Fin 5420) \<and>
   parseDuration ''invalid'' = Some (Fin 0)"
  by code_simp

subsection \<open>Unknown tokens\<close>

text \<open>
  C6. On every line with at least one token that no pattern accepts, \<^verbatim>\<open>parseInput\<close>
  answers \<^verbatim>\<open>"Error: Unknown tokens: "\<close> followed by those tokens in the order of the
  line, joined by \<^verbatim>\<open>", "\<close>, whatever else the line supplies.
\<close>

theorem unknown_tokens_error:
  assumes "unknownTokens (parseInputString inp) \<noteq> []"
  shows "parseInput inp =
           \<lparr>input = inp,
            output = ''Error: Unknown tokens: ''
                       @ join '', '' (filter (\<lambda>t. match_key regexes t = None) (tokenize inp))\<rparr>"
  using assms
  by (simp add: parseInput_def parseInput_try_def Let_def unknownTokens_parseInputString)

text \<open>
  The line of the claim, and a line that also supplies a file size and a duration,
  from which a bit rate could have been computed.
\<close>

theorem unknown_tokens_error_witness:
  "unknownTokens (parseInputString ''10X 20Y'') \<noteq> [] \<and>
   parseInput ''10X 20Y'' = \<lparr>input = ''10X 20Y'', output = ''Error: Unknown tokens: 10X, 20Y''\<rparr> \<and>
   unknownTokens (parseInputString ''700MB 10X 2h 20Y'') \<noteq> [] \<and>
   parsed (parseInputString ''700MB 10X 2h 20Y'') FileSize = Some ''700MB'' \<and>
   parsed (parseInputString ''700MB 10X 2h 20Y'') Duration = Some ''2h'' \<and>
   parseInput ''700MB 10X 2h 20Y'' =
     \<lparr>input = ''700MB 10X 2h 20Y'', output = ''Error: Unknown tokens: 10X, 20Y''\<rparr>"
proof -
  have a: "unknownTokens (parseInputString ''10X 20Y'') \<noteq> []"
    by code_simp
  have a': "join '', '' (filter (\<lambda>t. match_key regexes t = None) (tokenize ''10X 20Y'')) = ''10X, 20Y''"
    by code_simp
  have b: "unknownTokens (parseInputString ''700MB 10X 2h 20Y'') \<noteq> []"
    by code_simp
  have b': "join '', '' (filter (\<lambda>t. match_key regexes t = None) (tokenize ''700MB 10X 2h 20Y''))
              = ''10X, 20Y''"
    by code_simp
  have c: "parsed (parseInputString ''700MB 10X 2h 20Y'') FileSize = Some ''700MB''"
    by code_simp
  have d: "parsed (parseInputString ''700MB 10X 2h 20Y'') Duration = Some ''2h''"
    by code_simp
  from unknown_tokens_error [OF a] unknown_tokens_error [OF b] a a' b b' c d
  show ?thesis
    by simp
qed

subsection \<open>The worked examples\<close>

text \<open>
  C7. The claim: \<^verbatim>\<open>parseInput("700MB 2h")\<close> answers \<^verbatim>\<open>"Bit rate: 778 kbps"\<close> and
  \<^verbatim>\<open>parseInput("777.77777kbps 2h")\<close> answers \<^verbatim>\<open>"File size: 700 MB"\<close>. The first holds.
  For the second, \<^verbatim>\<open>calculateFileSize\<close> multiplies bits per second by seconds and prints
  the bits as if they were bytes, about \<open>5599999944\<close> of them, eight times the \<open>700 MB\<close> of the
  claim.
\<close>

theorem bit_rate_and_file_size_examples:
  "output (parseInput ''700MB 2h'') = ''Bit rate: 778 kbps'' \<and>
   output (parseInput ''777.77777kbps 2h'') = ''File size: 5.60 GB''"
  by code_simp

subsection \<open>calculateFileSize with resolution and frame rate\<close>




subsection \<open>The tokenizer\<close>

text \<open>
  C9, as amended. For every input line the tokenizer splits the line at each space
  character and at no other whitespace, trims each fragment, discards the empty
  fragments and the tokens whose first character is \<^verbatim>\<open>/\<close>:
  \<^item> a line without a space is one fragment, so its tokens are the trimmed line
    alone, or none when the trimmed line is empty or starts with \<^verbatim>\<open>/\<close>, whatever
    other whitespace the line holds;
  \<^item> the tokens of a line with a space are the tokens of what precedes the space
    followed by the tokens of what follows it;
  \<^item> a token is not empty, holds no space, and neither starts with \<^verbatim>\<open>/\<close> nor starts
    or ends with whitespace;
  \<^item> \<^verbatim>\<open>parseInputString\<close> classifies exactly these tokens: the unknown tokens are the
    tokens that no pattern accepts, in the order of the line, and the value of a kind
    is the last token of that kind;
  \<^item> on a line whose only whitespace characters are spaces the tokens are those of
    the specification's tokenizer, which splits on any whitespace.
\<close>

theorem tokenize_splits_at_spaces:
  "(CHR '' '' \<notin> set inp \<longrightarrow>
      tokenize inp = (if trim inp \<noteq> [] \<and> \<not> startsWith (trim inp) ''/'' then [trim inp] else [])) \<and>
   tokenize (a @ CHR '' '' # b) = tokenize a @ tokenize b \<and>
   (\<forall>t \<in> set (tokenize inp).
      t \<noteq> [] \<and> hd t \<noteq> CHR ''/'' \<and> CHR '' '' \<notin> set t \<and>
      \<not> is_whitespace (hd t) \<and> \<not> is_whitespace (last t)) \<and>
   (unknownTokens (parseInputString inp) = filter (\<lambda>t. match_key regexes t = None) (tokenize inp)) \<and>
   (\<forall>key. parsed (parseInputString inp) key =
      (case filter (\<lambda>t. match_key regexes t = Some key) (tokenize inp) of
         [] \<Rightarrow> None
       | t # fs \<Rightarrow> Some (last (t # fs)))) \<and>
   ((\<forall>c \<in> set inp. is_whitespace c \<longrightarrow> c = CHR '' '') \<longrightarrow> tokenize inp = spec_tokenize inp)"
proof (intro conjI allI impI ballI)
  assume "CHR '' '' \<notin> set inp"
  then show "tokenize inp = (if trim inp \<noteq> [] \<and> \<not> startsWith (trim inp) ''/'' then [trim inp] else [])"
    by (rule tokenize_no_space)
next
  show "tokenize (a @ CHR '' '' # b) = tokenize a @ tokenize b"
    by (rule tokenize_append)
next
  fix t
  assume "t \<in> set (tokenize inp)"
  then have tok: "t \<noteq> [] \<and> hd t \<noteq> CHR ''/'' \<and> CHR '' '' \<notin> set t \<and>
         \<not> is_whitespace (hd t) \<and> \<not> is_whitespace (last t)"
    by (rule tokenize_tokens)
  from tok show "t \<noteq> []" by simp
  from tok show "hd t \<noteq> CHR ''/''" by simp
  from tok show "CHR '' '' \<notin> set t" by simp
  from tok show "\<not> is_whitespace (hd t)" by simp
  from tok show "\<not> is_whitespace (last t)" by simp
next
  show "unknownTokens (parseInputString inp) = filter (\<lambda>t. match_key regexes t = None) (tokenize inp)"
    by (rule unknownTokens_parseInputString)
next
  fix key
  show "parsed (parseInputString inp) key =
      (case filter (\<lambda>t. match_key regexes t = Some key) (tokenize inp) of
         [] \<Rightarrow> None
       | t # fs \<Rightarrow> Some (last (t # fs)))"
    by (rule parsed_parseInputString)
next
  assume only_spaces: "\<forall>c \<in> set inp. is_whitespace c \<longrightarrow> c = CHR '' ''"
  have sp: "is_whitespace CHR '' ''"
    by (simp add: is_whitespace_def)
  have "split_by (\<lambda>c. c = CHR '' '') inp = split_by is_whitespace inp"
  proof (rule split_by_cong)
    fix c
    assume "c \<in> set inp"
    with only_spaces sp show "(c = CHR '' '') = is_whitespace c"
      by auto
  qed
  then show "tokenize inp = spec_tokenize inp"
    by (simp add: tokenize_def spec_tokenize_def split_char_def)
qed

text \<open>
  The theorem at a line without a space, whose tab stays inside the one token, and at
  a line of spaces, slash command and three parameters.
\<close>

theorem tokenize_splits_at_spaces_witness:
  "CHR '' '' \<notin> set (''700MB'' @ [CHR 0x09] @ ''2h'') \<and>
   tokenize (''700MB'' @ [CHR 0x09] @ ''2h'') = [''700MB'' @ [CHR 0x09] @ ''2h''] \<and>
   tokenize ('' /clear  700MB'' @ CHR '' '' # ''  2h 10X '') = [''700MB'', ''2h'', ''10X''] \<and>
   tokenize '' /clear  700MB   2h 10X '' = [''700MB'', ''2h'', ''10X''] \<and>
   unknownTokens (parseInputString '' /clear  700MB   2h 10X '') = [''10X''] \<and>
   parsed (parseInputString '' /clear  700MB   2h 10X '') Duration = Some ''2h''"
proof -
  have no_space: "CHR '' '' \<notin> set (''700MB'' @ [CHR 0x09] @ ''2h'')"
    by code_simp
  have tr: "trim (''700MB'' @ [CHR 0x09] @ ''2h'') = ''700MB'' @ [CHR 0x09] @ ''2h''"
    "startsWith (''700MB'' @ [CHR 0x09] @ ''2h'') ''/'' = False"
    by code_simp+
  have parts: "tokenize '' /clear  700MB'' = [''700MB'']" "tokenize ''  2h 10X '' = [''2h'', ''10X'']"
    by code_simp+
  have only_spaces: "\<forall>c \<in> set '' /clear  700MB   2h 10X ''. is_whitespace c \<longrightarrow> c = CHR '' ''"
    by code_simp
  have spec: "spec_tokenize '' /clear  700MB   2h 10X '' = [''700MB'', ''2h'', ''10X'']"
    by code_simp
  have m: "filter (\<lambda>t. match_key regexes t = None) [''700MB'', ''2h'', ''10X''] = [''10X'']"
    "filter (\<lambda>t. match_key regexes t = Some Duration) [''700MB'', ''2h'', ''10X''] = [''2h'']"
    by code_simp+
  from tokenize_splits_at_spaces [of "''700MB'' @ [CHR 0x09] @ ''2h''"] no_space
  have "tokenize (''700MB'' @ [CHR 0x09] @ ''2h'') =
          (if trim (''700MB'' @ [CHR 0x09] @ ''2h'') \<noteq> [] \<and>
              \<not> startsWith (trim (''700MB'' @ [CHR 0x09] @ ''2h'')) ''/''
           then [trim (''700MB'' @ [CHR 0x09] @ ''2h'')] else [])"
    by blast
  then have tab: "tokenize (''700MB'' @ [CHR 0x09] @ ''2h'') = [''700MB'' @ [CHR 0x09] @ ''2h'']"
    unfolding tr by simp
  from tokenize_splits_at_spaces [of _ "'' /clear  700MB''" "''  2h 10X ''"]
  have "tokenize ('' /clear  700MB'' @ CHR '' '' # ''  2h 10X '') =
          tokenize '' /clear  700MB'' @ tokenize ''  2h 10X ''"
    by blast
  then have app: "tokenize ('' /clear  700MB'' @ CHR '' '' # ''  2h 10X '') = [''700MB'', ''2h'', ''10X'']"
    unfolding parts by simp
  from tokenize_splits_at_spaces [of "'' /clear  700MB   2h 10X ''"] only_spaces
  have tok: "tokenize '' /clear  700MB   2h 10X '' = spec_tokenize '' /clear  700MB   2h 10X ''"
    and unk: "unknownTokens (parseInputString '' /clear  700MB   2h 10X '') =
               filter (\<lambda>t. match_key regexes t = None) (tokenize '' /clear  700MB   2h 10X '')"
    and par: "parsed (parseInputString '' /clear  700MB   2h 10X '') Duration =
      (case filter (\<lambda>t. match_key regexes t = Some Duration) (tokenize '' /clear  700MB   2h 10X '') of
         [] \<Rightarrow> None
       | t # fs \<Rightarrow> Some (last (t # fs)))"
    by blast+
  from tok spec have t: "tokenize '' /clear  700MB   2h 10X '' = [''700MB'', ''2h'', ''10X'']"
    by simp
  from unk par have rest: "unknownTokens (parseInputString '' /clear  700MB   2h 10X '') = [''10X''] \<and>
   parsed (parseInputString '' /clear  700MB   2h 10X '') Duration = Some ''2h''"
    unfolding t m by simp
  from no_space tab app t rest show ?thesis
    by blast
qed

text \<open>
  The claim as stated fails on a tab: the two parameters of \<^verbatim>\<open>"700MB<TAB>2h"\<close> stay
  one token, which no pattern accepts, where the line with a space has a file size and
  a duration.
\<close>

theorem tab_does_not_separate:
  "tokenize (''700MB'' @ [CHR 0x09] @ ''2h'') = [''700MB'' @ [CHR 0x09] @ ''2h''] \<and>
   spec_tokenize (''700MB'' @ [CHR 0x09] @ ''2h'') = [''700MB'', ''2h''] \<and>
   unknownTokens (parseInputString (''700MB'' @ [CHR 0x09] @ ''2h'')) = [''700MB'' @ [CHR 0x09] @ ''2h''] \<and>
   parsed (parseInputString (''700MB'' @ [CHR 0x09] @ ''2h'')) FileSize = None \<and>
   parsed (parseInputString (''700MB'' @ [CHR 0x09] @ ''2h'')) Duration = None \<and>
   unknownTokens (parseInputString ''700MB 2h'') = [] \<and>
   parsed (parseInputString ''700MB 2h'') FileSize = Some ''700MB'' \<and>
   parsed (parseInputString ''700MB 2h'') Duration = Some ''2h''"
  by code_simp

subsection \<open>A duration of zero seconds\<close>

text \<open>
  C10, as amended. On every line without unknown tokens whose duration token \<open>d\<close>
  (the last one, if the line has several) parses to zero seconds and which supplies
  exactly one of file size and bit rate, \<^verbatim>\<open>parseInput\<close> answers
  \<^verbatim>\<open>"Error: Invalid duration format "\<close> followed by \<open>d\<close>: the test
  \<^verbatim>\<open>!durationInSeconds\<close> does not tell 0 from \<^verbatim>\<open>null\<close>.
\<close>

theorem zero_duration_rejected:
  assumes "unknownTokens (parseInputString inp) = []"
    and "parsed (parseInputString inp) Duration = Some d"
    and "parseDuration d = Some (Fin 0)"
    and "(parsed (parseInputString inp) FileSize = None) \<noteq> (parsed (parseInputString inp) BitRate = None)"
  shows "parseInput inp = \<lparr>input = inp, output = ''Error: Invalid duration format '' @ d\<rparr>"
proof -
  from assms(2,4)
  have one: "length (filter (\<lambda>key. parsed (parseInputString inp) key = None) requiredKeys) = 1"
    by (auto simp: requiredKeys_def)
  from assms(1,2,3) one show ?thesis
    by (simp add: parseInput_def parseInput_try_def Let_def bind_exn_def)
qed

theorem zero_duration_rejected_witness:
  "unknownTokens (parseInputString ''0s 10MB'') = [] \<and>
   parsed (parseInputString ''0s 10MB'') Duration = Some ''0s'' \<and>
   parseDuration ''0s'' = Some (Fin 0) \<and>
   (parsed (parseInputString ''0s 10MB'') FileSize = None)
      \<noteq> (parsed (parseInputString ''0s 10MB'') BitRate = None) \<and>
   parseInput ''0s 10MB'' = \<lparr>input = ''0s 10MB'', output = ''Error: Invalid duration format 0s''\<rparr> \<and>
   unknownTokens (parseInputString ''1M 00:00'') = [] \<and>
   parsed (parseInputString ''1M 00:00'') Duration = Some ''00:00'' \<and>
   parseDuration ''00:00'' = Some (Fin 0) \<and>
   (parsed (parseInputString ''1M 00:00'') FileSize = None)
      \<noteq> (parsed (parseInputString ''1M 00:00'') BitRate = None) \<and>
   parseInput ''1M 00:00'' = \<lparr>input = ''1M 00:00'', output = ''Error: Invalid duration format 00:00''\<rparr>"
proof -
  have a1: "unknownTokens (parseInputString ''0s 10MB'') = []"
    by code_simp
  have a2: "parsed (parseInputString ''0s 10MB'') Duration = Some ''0s''"
    by code_simp
  have a3: "parseDuration ''0s'' = Some (Fin 0)"
    by code_simp
  have a4: "(parsed (parseInputString ''0s 10MB'') FileSize = None)
      \<noteq> (parsed (parseInputString ''0s 10MB'') BitRate = None)"
    by code_simp
  have b1: "unknownTokens (parseInputString ''1M 00:00'') = []"
    by code_simp
  have b2: "parsed (parseInputString ''1M 00:00'') Duration = Some ''00:00''"
    by code_simp
  have b3: "parseDuration ''00:00'' = Some (Fin 0)"
    by code_simp
  have b4: "(parsed (parseInputString ''1M 00:00'') FileSize = None)
      \<noteq> (parsed (parseInputString ''1M 00:00'') BitRate = None)"
    by code_simp
  from zero_duration_rejected [OF a1 a2 a3 a4] zero_duration_rejected [OF b1 b2 b3 b4]
    a1 a2 a3 a4 b1 b2 b3 b4
  show ?thesis
    by simp
qed

text \<open>
  Without these conditions the claim fails. The check for unknown tokens comes first,
  and then the duration of zero seconds is never looked at; and a later duration token
  replaces an earlier one, so the zero of \<^verbatim>\<open>"0s 5s 10MB"\<close> is not the duration of the
  line.
\<close>

theorem zero_duration_with_unknown_token:
  "parsed (parseInputString ''0s 10MB foo'') Duration = Some ''0s'' \<and>
   parseDuration ''0s'' = Some (Fin 0) \<and>
   parsed (parseInputString ''0s 10MB foo'') FileSize = Some ''10MB'' \<and>
   parsed (parseInputString ''0s 10MB foo'') BitRate = None \<and>
   output (parseInput ''0s 10MB foo'') = ''Error: Unknown tokens: foo'' \<and>
   tokenize ''0s 5s 10MB'' = [''0s'', ''5s'', ''10MB''] \<and>
   match_key regexes ''0s'' = Some Duration \<and>
   unknownTokens (parseInputString ''0s 5s 10MB'') = [] \<and>
   parsed (parseInputString ''0s 5s 10MB'') Duration = Some ''5s'' \<and>
   output (parseInput ''0s 5s 10MB'') = ''Bit rate: 16.0 Mbps''"
  by code_simp

end
